theory Spec2Isabelle
  imports Main
begin

section \<open>The wallet UI's background client\<close>

text \<open>
  A model of \<^verbatim>\<open>apps/wallet/src/ui/app/background-client/index.ts\<close>: the class
  \<^verbatim>\<open>BackgroundClient\<close>, through which the wallet UI talks to the background service
  over a port. Every method builds a message, hands it to \<^verbatim>\<open>sendMessage\<close> and, for
  most of them, waits for the first answer on the observable the port returns.
\<close>

subsection \<open>Errors\<close>

text \<open>
  The class raises plain JavaScript \<^verbatim>\<open>Error\<close> objects that differ only in their
  message. \<open>EmptyError\<close> is what \<^verbatim>\<open>lastValueFrom\<close> of rxjs rejects with when an
  observable completes without a value.
\<close>

datatype error = Error string | EmptyError

definition starts_with :: "string \<Rightarrow> string \<Rightarrow> bool" where
  "starts_with p s = (take (length p) s = p)"

text \<open>
  The specification names failures (\<open>ChannelNotConnected\<close>, \<open>UnexpectedResponseShape\<close>,
  \<open>MnemonicNotFound\<close>); the code has no such classes. The three predicates below say
  which of the messages raised in this file each name stands for. The last three
  messages of \<open>UnexpectedResponseShape\<close> are template strings that end with the type
  that was received.
\<close>

definition ChannelNotConnected :: "error \<Rightarrow> bool" where
  "ChannelNotConnected e =
     (e = Error ''Failed to send message to background service. Port not connected.'')"

definition MnemonicNotFound :: "error \<Rightarrow> bool" where
  "MnemonicNotFound e = (e = Error ''Mnemonic not found'')"

definition UnexpectedResponseShape :: "error \<Rightarrow> bool" where
  "UnexpectedResponseShape e =
     (case e of
        EmptyError \<Rightarrow> False
      | Error m \<Rightarrow>
          m = ''Error unknown response for signData message''
        \<or> m = ''Error unknown response for derive account message''
        \<or> m = ''Error unknown response for export account message''
        \<or> m = ''Error unknown response for fetch pending qredo requests message''
        \<or> m = ''Error unknown response for get qredo info message''
        \<or> m = ''Error unknown response for accept qredo connection''
        \<or> m = ''Unknown response''
        \<or> m = ''Unexpected response type''
        \<or> starts_with ''unexpected entity type response '' m
        \<or> starts_with ''Unexpected account source type response '' m
        \<or> starts_with ''Unexpected accounts type response '' m)"

subsection \<open>Payloads and messages\<close>

text \<open>
  The payload of a message is a union tagged by its \<^verbatim>\<open>type\<close> field and, for the three
  method families, by \<^verbatim>\<open>method\<close>. A constructor stands for one tag and carries the fields
  the code reads or writes under that tag; an optional field is an \<open>option\<close>. Values the
  client only passes through (key pairs, transaction results, feature tables) are kept
  as text.
\<close>

datatype base64 = toB64 "nat list"

datatype ui_accessible_entity_type = Entity_accounts | Entity_accountSources

datatype serialized_ui_account =
  SerializedUIAccount (account_id: string) (account_type: string)

datatype account_source =
  AccountSource (source_id: string) (source_type: string)

datatype create_accounts_args =
  CreateAccountsArgs (args_type: string) (args_rest: string)

text \<open>Payloads with \<^verbatim>\<open>type: 'keyring'\<close>; the optional \<^verbatim>\<open>return\<close> comes last.\<close>

datatype keyring_payload =
    K_create string "string option"
  | K_unlock string
  | K_lock
  | K_getEntropy "string option" "string option"
  | K_setLockTimeout int
  | K_deriveNextAccount "string option"
  | K_verifyPassword string
  | K_exportAccount "(string \<times> string) option" "string option"
  | K_importPrivateKey string string
  | K_appStatusUpdate bool
  | K_other string

text \<open>Payloads with \<^verbatim>\<open>type: 'method-payload'\<close>.\<close>

datatype method_payload =
    M_signData base64 string
  | M_signDataResponse string
  | M_clearWallet
  | M_switchAccount string
  | M_verifyPassword string
  | M_getStoredEntities ui_accessible_entity_type
  | M_storedEntitiesResponse "string list" ui_accessible_entity_type
  | M_createAccountSource string string "string option"
  | M_accountSourceCreationResponse account_source
  | M_createAccounts create_accounts_args
  | M_accountsCreatedResponse "serialized_ui_account list"
  | M_deleteAccountSourceByType string
  | M_deleteAccountSourceByTypeResponse bool
  | M_unlockAccountSourceOrAccount string "string option"
  | M_lockAccountSourceOrAccount string
  | M_setAccountNickname string "string option"
  | M_getStorageMigrationStatus
  | M_storageMigrationStatus string
  | M_doStorageMigration string
  | M_storeLedgerAccountsPublicKeys "(string \<times> string) list"
  | M_getAccountSourceEntropy string
  | M_getAccountSourceEntropyResponse string
  | M_entitiesUpdated ui_accessible_entity_type
  | M_other string

text \<open>Payloads with \<^verbatim>\<open>type: 'qredo-connect'\<close>.\<close>

datatype qredo_connect_payload =
    Q_getPendingRequest string
  | Q_getPendingRequestResponse "string option"
  | Q_getQredoInfo string bool
  | Q_getQredoInfoResponse "string option"
  | Q_acceptQredoConnection string
  | Q_acceptQredoConnectionResponse "serialized_ui_account list"
  | Q_rejectQredoConnection string
  | Q_other string

datatype payload =
    Keyring keyring_payload
  | MethodPayload method_payload
  | QredoConnect qredo_connect_payload
  | PermissionResponse string "string list" bool string
  | GetPermissionRequests
  | TransactionRequestResponse bool string "string option" "string option" "string option"
  | GetTransactionRequests
  | DisconnectApp string "string list option"
  | SetNetworkPayload string
  | GetFeatures
  | GetNetwork
  | PermissionRequests "string list"
  | GetTransactionRequestsResponse "string list"
  | UpdateActiveOrigin "string option" "string option"
  | LoadedFeaturesPayload string string
  | OtherPayload string

text \<open>
  The \<^verbatim>\<open>type\<close> tag of a payload where this file writes it (it builds the payload, or
  the tag is fixed by the family). The tags of the four payloads the client only
  receives are tested by imported type guards and are not written here.
\<close>

fun payload_type :: "payload \<Rightarrow> string option" where
  "payload_type (Keyring k) = Some ''keyring''"
| "payload_type (MethodPayload m) = Some ''method-payload''"
| "payload_type (QredoConnect q) = Some ''qredo-connect''"
| "payload_type (PermissionResponse i accs allowed date) = Some ''permission-response''"
| "payload_type GetPermissionRequests = Some ''get-permission-requests''"
| "payload_type (TransactionRequestResponse approved txID r e s) =
     Some ''transaction-request-response''"
| "payload_type GetTransactionRequests = Some ''get-transaction-requests''"
| "payload_type (DisconnectApp origin accs) = Some ''disconnect-app''"
| "payload_type (SetNetworkPayload network) = Some ''set-network''"
| "payload_type GetFeatures = Some ''get-features''"
| "payload_type GetNetwork = Some ''get-network''"
| "payload_type (OtherPayload t) = Some t"
| "payload_type p = None"

record message =
  msg_id :: nat
  msg_payload :: payload

fun keyring_method :: "keyring_payload \<Rightarrow> string" where
  "keyring_method (K_create password importedEntropy) = ''create''"
| "keyring_method (K_unlock password) = ''unlock''"
| "keyring_method K_lock = ''lock''"
| "keyring_method (K_getEntropy args ret) = ''getEntropy''"
| "keyring_method (K_setLockTimeout timeout) = ''setLockTimeout''"
| "keyring_method (K_deriveNextAccount ret) = ''deriveNextAccount''"
| "keyring_method (K_verifyPassword password) = ''verifyPassword''"
| "keyring_method (K_exportAccount args ret) = ''exportAccount''"
| "keyring_method (K_importPrivateKey password keyPair) = ''importPrivateKey''"
| "keyring_method (K_appStatusUpdate active) = ''appStatusUpdate''"
| "keyring_method (K_other m) = m"

fun method_payload_method :: "method_payload \<Rightarrow> string" where
  "method_payload_method (M_signData d i) = ''signData''"
| "method_payload_method (M_signDataResponse signature) = ''signDataResponse''"
| "method_payload_method M_clearWallet = ''clearWallet''"
| "method_payload_method (M_switchAccount accountID) = ''switchAccount''"
| "method_payload_method (M_verifyPassword password) = ''verifyPassword''"
| "method_payload_method (M_getStoredEntities t) = ''getStoredEntities''"
| "method_payload_method (M_storedEntitiesResponse entities t) = ''storedEntitiesResponse''"
| "method_payload_method (M_createAccountSource t password entropy) = ''createAccountSource''"
| "method_payload_method (M_accountSourceCreationResponse src) = ''accountSourceCreationResponse''"
| "method_payload_method (M_createAccounts inputs) = ''createAccounts''"
| "method_payload_method (M_accountsCreatedResponse accs) = ''accountsCreatedResponse''"
| "method_payload_method (M_deleteAccountSourceByType t) = ''deleteAccountSourceByType''"
| "method_payload_method (M_deleteAccountSourceByTypeResponse success) =
     ''deleteAccountSourceByTypeResponse''"
| "method_payload_method (M_unlockAccountSourceOrAccount i password) =
     ''unlockAccountSourceOrAccount''"
| "method_payload_method (M_lockAccountSourceOrAccount i) = ''lockAccountSourceOrAccount''"
| "method_payload_method (M_setAccountNickname i nickname) = ''setAccountNickname''"
| "method_payload_method M_getStorageMigrationStatus = ''getStorageMigrationStatus''"
| "method_payload_method (M_storageMigrationStatus status) = ''storageMigrationStatus''"
| "method_payload_method (M_doStorageMigration inputs) = ''doStorageMigration''"
| "method_payload_method (M_storeLedgerAccountsPublicKeys keys) =
     ''storeLedgerAccountsPublicKeys''"
| "method_payload_method (M_getAccountSourceEntropy i) = ''getAccountSourceEntropy''"
| "method_payload_method (M_getAccountSourceEntropyResponse entropy) =
     ''getAccountSourceEntropyResponse''"
| "method_payload_method (M_entitiesUpdated t) = ''entitiesUpdated''"
| "method_payload_method (M_other m) = m"

fun qredo_connect_method :: "qredo_connect_payload \<Rightarrow> string" where
  "qredo_connect_method (Q_getPendingRequest requestID) = ''getPendingRequest''"
| "qredo_connect_method (Q_getPendingRequestResponse request) = ''getPendingRequestResponse''"
| "qredo_connect_method (Q_getQredoInfo qredoID refresh) = ''getQredoInfo''"
| "qredo_connect_method (Q_getQredoInfoResponse info) = ''getQredoInfoResponse''"
| "qredo_connect_method (Q_acceptQredoConnection args) = ''acceptQredoConnection''"
| "qredo_connect_method (Q_acceptQredoConnectionResponse accs) =
     ''acceptQredoConnectionResponse''"
| "qredo_connect_method (Q_rejectQredoConnection args) = ''rejectQredoConnection''"
| "qredo_connect_method (Q_other m) = m"

fun payload_method :: "payload \<Rightarrow> string option" where
  "payload_method (Keyring k) = Some (keyring_method k)"
| "payload_method (MethodPayload m) = Some (method_payload_method m)"
| "payload_method (QredoConnect q) = Some (qredo_connect_method q)"
| "payload_method p = None"

text \<open>
  \<open>K_other\<close>, \<open>M_other\<close>, \<open>Q_other\<close> and \<open>OtherPayload\<close> stand for the payloads whose
  method or type is none of those with a constructor of their own.
\<close>

subsection \<open>Observables and promises\<close>

text \<open>
  What an observer of an rxjs observable has seen so far is a list of notifications:
  values, then at most one error or completion. The three operators the class uses are
  functions on such lists. \<open>take_rx 1\<close> passes the first value on and completes at
  once, so nothing after it is seen; \<open>map_rx f\<close> applies \<open>f\<close> and turns an exception of
  \<open>f\<close> into the error of the stream; \<open>lastValueFrom\<close> settles when the stream ends.
\<close>

datatype 'a notification = Next 'a | Failed error | Complete

datatype 'a promise = Pending | Resolved 'a | Rejected error

fun take_rx :: "nat \<Rightarrow> 'a notification list \<Rightarrow> 'a notification list" where
  "take_rx 0 ns = [Complete]"
| "take_rx (Suc n) [] = []"
| "take_rx (Suc n) (Next v # ns) = Next v # take_rx n ns"
| "take_rx (Suc n) (Failed e # ns) = [Failed e]"
| "take_rx (Suc n) (Complete # ns) = [Complete]"

fun map_rx :: "('a \<Rightarrow> error + 'b) \<Rightarrow> 'a notification list \<Rightarrow> 'b notification list" where
  "map_rx f [] = []"
| "map_rx f (Next v # ns) = (case f v of Inl e \<Rightarrow> [Failed e] | Inr y \<Rightarrow> Next y # map_rx f ns)"
| "map_rx f (Failed e # ns) = [Failed e]"
| "map_rx f (Complete # ns) = [Complete]"

fun lastValue :: "'a option \<Rightarrow> 'a notification list \<Rightarrow> 'a promise" where
  "lastValue seen [] = Pending"
| "lastValue seen (Next v # ns) = lastValue (Some v) ns"
| "lastValue seen (Failed e # ns) = Rejected e"
| "lastValue seen (Complete # ns) =
     (case seen of None \<Rightarrow> Rejected EmptyError | Some v \<Rightarrow> Resolved v)"

definition lastValueFrom :: "'a notification list \<Rightarrow> 'a promise" where
  "lastValueFrom ns = lastValue None ns"

text \<open>
  Modelled from the spec: the observable \<^verbatim>\<open>PortStream.sendMessage\<close> returns (the class
  \<^verbatim>\<open>PortStream\<close> is not among the sources). Section 4.2 pairs a response with its
  request by the envelope's id, so the observable of the request \<open>rid\<close> carries, in
  order of arrival, the incoming messages whose id is \<open>rid\<close>; it does not end.
\<close>

definition responses :: "nat \<Rightarrow> message list \<Rightarrow> message notification list" where
  "responses rid incoming = map Next (filter (\<lambda>m. msg_id m = rid) incoming)"

subsection \<open>The client and its surroundings\<close>

text \<open>
  Modelled from the spec: the transport channel of section 4.1 (the class \<^verbatim>\<open>PortStream\<close>
  is not among the sources). \<open>posted\<close> are the envelopes handed to the channel, oldest
  first; \<open>onDisconnect\<close> and \<open>onMessage\<close> hold the subscribers of its two events, which
  here can only be the two closures \<^verbatim>\<open>createPortStream\<close> registers.
\<close>

datatype handler = Handler_createPortStream | Handler_handleIncomingMessage

record port_stream =
  port_name :: string
  connected :: bool
  posted :: "message list"
  onDisconnect :: "handler list"
  onMessage :: "handler list"

text \<open>
  Modelled from the spec: \<^verbatim>\<open>PortStream.connectToBackgroundService\<close>, the \<open>connect\<close> of
  section 4.1. It gives a new channel, connected, with nothing sent and no subscriber.
\<close>

definition connectToBackgroundService :: "string \<Rightarrow> port_stream" where
  "connectToBackgroundService name =
     \<lparr>port_name = name, connected = True, posted = [], onDisconnect = [], onMessage = []\<rparr>"

text \<open>
  Modelled from the spec: \<^verbatim>\<open>PortStream.sendMessage\<close>, the \<open>send\<close> of section 4.1, on a
  connected channel. The observable it returns is \<open>responses\<close> above.
\<close>

definition PortStream_sendMessage :: "message \<Rightarrow> port_stream \<Rightarrow> port_stream" where
  "PortStream_sendMessage msg ps = ps\<lparr>posted := posted ps @ [msg]\<rparr>"

text \<open>
  The redux actions the client dispatches and the query keys it invalidates; the
  reducers and the keys' contents are outside this file.
\<close>

datatype action =
    setPermissions "string list"
  | setTransactionRequests "string list"
  | setActiveOrigin "string option" "string option"
  | changeActiveNetwork string

datatype query_key = accountsQueryKey | accountSourcesQueryKey

datatype app_dispatch = AppDispatch nat

datatype timer_callback = Callback_sendAppStatus

text \<open>
  The first three fields are the private fields of \<^verbatim>\<open>BackgroundClient\<close>. The others are
  what its methods read or change around it: the ids \<^verbatim>\<open>createMessage\<close> draws, the
  document's visibility, the timers set with \<^verbatim>\<open>setInterval\<close> (period in milliseconds),
  the actions passed to the dispatch function, the two tables of \<^verbatim>\<open>growthbook\<close>, and the
  keys passed to \<^verbatim>\<open>queryClient.invalidateQueries\<close>.
\<close>

record world =
  portStream :: "port_stream option"
  dispatch :: "app_dispatch option"
  initialized :: bool
  nextId :: nat
  visibilityState :: string
  intervals :: "(timer_callback \<times> nat) list"
  dispatched :: "action list"
  growthbook_attributes :: "string option"
  growthbook_features :: "string option"
  invalidated :: "query_key list"

definition new_client :: "string \<Rightarrow> world" where
  "new_client visibility =
     \<lparr>portStream = None, dispatch = None, initialized = False, nextId = 0,
      visibilityState = visibility, intervals = [], dispatched = [],
      growthbook_attributes = None, growthbook_features = None, invalidated = []\<rparr>"

text \<open>
  A method takes the world and gives back what it returned or threw, with the world it
  left behind: an exception does not undo the assignments made before it.
\<close>

type_synonym 'a outcome = "(error + 'a) \<times> world"

text \<open>
  Modelled from the spec: \<^verbatim>\<open>createMessage\<close> (not among the sources). Section 4.2: every
  outbound request is assigned a fresh unique id at creation.
\<close>

definition createMessage :: "payload \<Rightarrow> world \<Rightarrow> message \<times> world" where
  "createMessage p w = (\<lparr>msg_id = nextId w, msg_payload = p\<rparr>, w\<lparr>nextId := Suc (nextId w)\<rparr>)"

text \<open>
  \<^verbatim>\<open>sendMessage\<close>, lines 694 to 700. The observable it returns is known by the id of the
  message sent.
\<close>

definition sendMessage :: "message \<Rightarrow> world \<Rightarrow> nat outcome" where
  "sendMessage msg w =
     (case portStream w of
        Some ps \<Rightarrow>
          if connected ps
          then (Inr (msg_id msg), w\<lparr>portStream := Some (PortStream_sendMessage msg ps)\<rparr>)
          else (Inl (Error ''Failed to send message to background service. Port not connected.''), w)
      | None \<Rightarrow>
          (Inl (Error ''Failed to send message to background service. Port not connected.''), w))"

text \<open>The expression \<^verbatim>\<open>this.sendMessage(createMessage(p))\<close> every method starts with.\<close>

definition post :: "payload \<Rightarrow> world \<Rightarrow> nat outcome" where
  "post p w = (case createMessage p w of (msg, w') \<Rightarrow> sendMessage msg w')"

subsection \<open>The methods that send one message\<close>

text \<open>
  Every method but \<^verbatim>\<open>init\<close> and the private \<^verbatim>\<open>sendAppStatus\<close>, with its arguments. An
  optional argument is an \<open>option\<close>; the \<^verbatim>\<open>inputs\<close> objects are kept by their fields.
\<close>

datatype call =
    Call_sendPermissionResponse string "string list" bool string
  | Call_sendGetPermissionRequests
  | Call_sendTransactionRequestResponse string bool "string option" "string option" "string option"
  | Call_sendGetTransactionRequests
  | Call_disconnectApp string "string list option"
  | Call_createVault string "string option"
  | Call_unlockWallet string
  | Call_lockWallet
  | Call_clearWallet
  | Call_getEntropy "string option"
  | Call_setKeyringLockTimeout int
  | Call_signData string "nat list"
  | Call_setActiveNetworkEnv string
  | Call_selectAccount string
  | Call_deriveNextAccount
  | Call_verifyPassword string "bool option"
  | Call_exportAccount string string
  | Call_importPrivateKey string string
  | Call_fetchPendingQredoConnectRequest string
  | Call_getQredoConnectionInfo string "bool option"
  | Call_acceptQredoConnection string
  | Call_rejectQredoConnection string
  | Call_getStoredEntities ui_accessible_entity_type
  | Call_createMnemonicAccountSource string "string option"
  | Call_createAccounts create_accounts_args
  | Call_deleteAccountSourceByType string
  | Call_unlockAccountSourceOrAccount string "string option"
  | Call_lockAccountSourceOrAccount string
  | Call_setAccountNickname string "string option"
  | Call_getStorageMigrationStatus
  | Call_doStorageMigration string
  | Call_storeLedgerAccountsPublicKeys "(string \<times> string) list"
  | Call_getAccountSourceEntropy string
  | Call_loadFeatures
  | Call_getNetwork

text \<open>A parameter with the default \<^verbatim>\<open>false\<close>.\<close>

definition or_false :: "bool option \<Rightarrow> bool" where
  "or_false flag = (case flag of None \<Rightarrow> False | Some b \<Rightarrow> b)"

text \<open>The payload each method passes to \<^verbatim>\<open>createMessage\<close>.\<close>

definition request_of :: "call \<Rightarrow> payload" where
  "request_of c =
     (case c of
        Call_sendPermissionResponse i accs allowed responseDate \<Rightarrow>
          PermissionResponse i accs allowed responseDate
      | Call_sendGetPermissionRequests \<Rightarrow> GetPermissionRequests
      | Call_sendTransactionRequestResponse txID approved txResult txResultError txSigned \<Rightarrow>
          TransactionRequestResponse approved txID txResult txResultError txSigned
      | Call_sendGetTransactionRequests \<Rightarrow> GetTransactionRequests
      | Call_disconnectApp origin specificAccounts \<Rightarrow> DisconnectApp origin specificAccounts
      | Call_createVault password importedEntropy \<Rightarrow> Keyring (K_create password importedEntropy)
      | Call_unlockWallet password \<Rightarrow> Keyring (K_unlock password)
      | Call_lockWallet \<Rightarrow> Keyring K_lock
      | Call_clearWallet \<Rightarrow> MethodPayload M_clearWallet
      | Call_getEntropy password \<Rightarrow> Keyring (K_getEntropy password None)
      | Call_setKeyringLockTimeout timeout \<Rightarrow> Keyring (K_setLockTimeout timeout)
      | Call_signData addressOrID bytes \<Rightarrow> MethodPayload (M_signData (toB64 bytes) addressOrID)
      | Call_setActiveNetworkEnv network \<Rightarrow> SetNetworkPayload network
      | Call_selectAccount accountID \<Rightarrow> MethodPayload (M_switchAccount accountID)
      | Call_deriveNextAccount \<Rightarrow> Keyring (K_deriveNextAccount None)
      | Call_verifyPassword password legacyAccounts \<Rightarrow>
          (if or_false legacyAccounts
           then Keyring (K_verifyPassword password)
           else MethodPayload (M_verifyPassword password))
      | Call_exportAccount password accountAddress \<Rightarrow>
          Keyring (K_exportAccount (Some (password, accountAddress)) None)
      | Call_importPrivateKey password keyPair \<Rightarrow> Keyring (K_importPrivateKey password keyPair)
      | Call_fetchPendingQredoConnectRequest requestID \<Rightarrow>
          QredoConnect (Q_getPendingRequest requestID)
      | Call_getQredoConnectionInfo qredoID refreshAccessToken \<Rightarrow>
          QredoConnect (Q_getQredoInfo qredoID (or_false refreshAccessToken))
      | Call_acceptQredoConnection args \<Rightarrow> QredoConnect (Q_acceptQredoConnection args)
      | Call_rejectQredoConnection args \<Rightarrow> QredoConnect (Q_rejectQredoConnection args)
      | Call_getStoredEntities t \<Rightarrow> MethodPayload (M_getStoredEntities t)
      | Call_createMnemonicAccountSource password entropy \<Rightarrow>
          MethodPayload (M_createAccountSource ''mnemonic'' password entropy)
      | Call_createAccounts inputs \<Rightarrow> MethodPayload (M_createAccounts inputs)
      | Call_deleteAccountSourceByType t \<Rightarrow> MethodPayload (M_deleteAccountSourceByType t)
      | Call_unlockAccountSourceOrAccount i password \<Rightarrow>
          MethodPayload (M_unlockAccountSourceOrAccount i password)
      | Call_lockAccountSourceOrAccount i \<Rightarrow> MethodPayload (M_lockAccountSourceOrAccount i)
      | Call_setAccountNickname i nickname \<Rightarrow> MethodPayload (M_setAccountNickname i nickname)
      | Call_getStorageMigrationStatus \<Rightarrow> MethodPayload M_getStorageMigrationStatus
      | Call_doStorageMigration inputs \<Rightarrow> MethodPayload (M_doStorageMigration inputs)
      | Call_storeLedgerAccountsPublicKeys keys \<Rightarrow>
          MethodPayload (M_storeLedgerAccountsPublicKeys keys)
      | Call_getAccountSourceEntropy accountSourceID \<Rightarrow>
          MethodPayload (M_getAccountSourceEntropy accountSourceID)
      | Call_loadFeatures \<Rightarrow> GetFeatures
      | Call_getNetwork \<Rightarrow> GetNetwork)"

text \<open>
  The synchronous part of a method: build the message and send it. It returns the id
  under which the answer is awaited. (\<^verbatim>\<open>disconnectApp\<close> is an \<^verbatim>\<open>async\<close> function, so what
  is an exception here is there a promise rejected at once.)
\<close>

definition invoke :: "call \<Rightarrow> world \<Rightarrow> nat outcome" where
  "invoke c w = post (request_of c) w"

text \<open>
  \<^verbatim>\<open>sendPermissionResponse\<close> and \<^verbatim>\<open>sendTransactionRequestResponse\<close> drop the observable;
  all other methods return \<^verbatim>\<open>lastValueFrom\<close> of it, piped through \<^verbatim>\<open>take(1)\<close>.
\<close>

definition awaits :: "call \<Rightarrow> bool" where
  "awaits c =
     (case c of
        Call_sendPermissionResponse i accs allowed responseDate \<Rightarrow> False
      | Call_sendTransactionRequestResponse txID approved r e s \<Rightarrow> False
      | _ \<Rightarrow> True)"

subsection \<open>The callbacks of \<^verbatim>\<open>map\<close>\<close>

text \<open>
  Each takes the response message and returns a field of its payload or throws. The
  type guards \<^verbatim>\<open>isKeyringPayload\<close>, \<^verbatim>\<open>isMethodPayload\<close> and \<^verbatim>\<open>isQredoConnectPayload\<close> are
  imported; a guard with its method name is a match on the constructor of that type and
  method. In \<^verbatim>\<open>getEntropy\<close> the test \<^verbatim>\<open>payload.return\<close> is on
  a string, which is falsy when absent or empty; in \<^verbatim>\<open>deriveNextAccount\<close> and
  \<^verbatim>\<open>exportAccount\<close> it is on an object, which is falsy only when absent.
\<close>

definition getEntropy_map :: "message \<Rightarrow> error + string" where
  "getEntropy_map msg =
     (case msg_payload msg of
        Keyring (K_getEntropy args (Some ret)) \<Rightarrow>
          if ret \<noteq> [] then Inr ret else Inl (Error ''Mnemonic not found'')
      | _ \<Rightarrow> Inl (Error ''Mnemonic not found''))"

definition signData_map :: "message \<Rightarrow> error + string" where
  "signData_map msg =
     (case msg_payload msg of
        MethodPayload (M_signDataResponse signature) \<Rightarrow> Inr signature
      | _ \<Rightarrow> Inl (Error ''Error unknown response for signData message''))"

definition deriveNextAccount_map :: "message \<Rightarrow> error + string" where
  "deriveNextAccount_map msg =
     (case msg_payload msg of
        Keyring (K_deriveNextAccount (Some accountAddress)) \<Rightarrow> Inr accountAddress
      | _ \<Rightarrow> Inl (Error ''Error unknown response for derive account message''))"

definition exportAccount_map :: "message \<Rightarrow> error + string" where
  "exportAccount_map msg =
     (case msg_payload msg of
        Keyring (K_exportAccount args (Some keyPair)) \<Rightarrow> Inr keyPair
      | _ \<Rightarrow> Inl (Error ''Error unknown response for export account message''))"

definition fetchPendingQredoConnectRequest_map :: "message \<Rightarrow> error + string option" where
  "fetchPendingQredoConnectRequest_map msg =
     (case msg_payload msg of
        QredoConnect (Q_getPendingRequestResponse request) \<Rightarrow> Inr request
      | _ \<Rightarrow> Inl (Error ''Error unknown response for fetch pending qredo requests message''))"

definition getQredoConnectionInfo_map :: "message \<Rightarrow> error + string option" where
  "getQredoConnectionInfo_map msg =
     (case msg_payload msg of
        QredoConnect (Q_getQredoInfoResponse args) \<Rightarrow> Inr args
      | _ \<Rightarrow> Inl (Error ''Error unknown response for get qredo info message''))"

definition acceptQredoConnection_map :: "message \<Rightarrow> error + serialized_ui_account list" where
  "acceptQredoConnection_map msg =
     (case msg_payload msg of
        QredoConnect (Q_acceptQredoConnectionResponse accs) \<Rightarrow> Inr accs
      | _ \<Rightarrow> Inl (Error ''Error unknown response for accept qredo connection''))"

fun entity_type_text :: "ui_accessible_entity_type \<Rightarrow> string" where
  "entity_type_text Entity_accounts = ''accounts''"
| "entity_type_text Entity_accountSources = ''accountSources''"

definition getStoredEntities_map ::
  "ui_accessible_entity_type \<Rightarrow> message \<Rightarrow> error + string list" where
  "getStoredEntities_map t msg =
     (case msg_payload msg of
        MethodPayload (M_storedEntitiesResponse entities t') \<Rightarrow>
          if t \<noteq> t'
          then Inl (Error (''unexpected entity type response '' @ entity_type_text t'))
          else Inr entities
      | _ \<Rightarrow> Inl (Error ''Unknown response''))"

definition createMnemonicAccountSource_map :: "message \<Rightarrow> error + account_source" where
  "createMnemonicAccountSource_map msg =
     (case msg_payload msg of
        MethodPayload (M_accountSourceCreationResponse accountSource) \<Rightarrow>
          if ''mnemonic'' \<noteq> source_type accountSource
          then Inl (Error (''Unexpected account source type response '' @ source_type accountSource))
          else Inr accountSource
      | _ \<Rightarrow> Inl (Error ''Unknown response''))"

text \<open>
  \<^verbatim>\<open>payload.args.accounts[0]?.type\<close> is \<^verbatim>\<open>undefined\<close> for an empty array, which differs
  from every string and prints as \<^verbatim>\<open>undefined\<close>.
\<close>

definition first_type :: "serialized_ui_account list \<Rightarrow> string option" where
  "first_type accs = (case accs of [] \<Rightarrow> None | a # rest \<Rightarrow> Some (account_type a))"

definition createAccounts_map ::
  "create_accounts_args \<Rightarrow> message \<Rightarrow> error + serialized_ui_account list" where
  "createAccounts_map inputs msg =
     (case msg_payload msg of
        MethodPayload (M_accountsCreatedResponse accs) \<Rightarrow>
          if Some (args_type inputs) \<noteq> first_type accs
          then Inl (Error (''Unexpected accounts type response '' @
                 (case first_type accs of None \<Rightarrow> ''undefined'' | Some t \<Rightarrow> t)))
          else Inr accs
      | _ \<Rightarrow> Inl (Error ''Unknown response''))"

definition deleteAccountSourceByType_map :: "message \<Rightarrow> error + bool" where
  "deleteAccountSourceByType_map msg =
     (case msg_payload msg of
        MethodPayload (M_deleteAccountSourceByTypeResponse success) \<Rightarrow> Inr success
      | _ \<Rightarrow> Inl (Error ''Unknown response''))"

definition getStorageMigrationStatus_map :: "message \<Rightarrow> error + string" where
  "getStorageMigrationStatus_map msg =
     (case msg_payload msg of
        MethodPayload (M_storageMigrationStatus status) \<Rightarrow> Inr status
      | _ \<Rightarrow> Inl (Error ''Unknown response''))"

definition getAccountSourceEntropy_map :: "message \<Rightarrow> error + string" where
  "getAccountSourceEntropy_map msg =
     (case msg_payload msg of
        MethodPayload (M_getAccountSourceEntropyResponse args) \<Rightarrow> Inr args
      | _ \<Rightarrow> Inl (Error ''Unexpected response type''))"

subsection \<open>What a method's promise settles to\<close>

datatype reply =
    Reply_message message
  | Reply_undefined
  | Reply_text string
  | Reply_optional "string option"
  | Reply_entities "string list"
  | Reply_accountSource account_source
  | Reply_accounts "serialized_ui_account list"
  | Reply_bool bool

text \<open>
  \<^verbatim>\<open>lastValueFrom(o.pipe(take(1)))\<close> and \<^verbatim>\<open>lastValueFrom(o.pipe(take(1), map(f)))\<close>, for
  what has been seen of the observable \<^verbatim>\<open>o\<close>.
\<close>

definition first_of :: "message notification list \<Rightarrow> message promise" where
  "first_of obs = lastValueFrom (take_rx 1 obs)"

definition first_mapped :: "(message \<Rightarrow> error + 'a) \<Rightarrow> message notification list \<Rightarrow> 'a promise" where
  "first_mapped f obs = lastValueFrom (map_rx f (take_rx 1 obs))"

text \<open>
  The promise of each method, given what the observable returned by \<^verbatim>\<open>sendMessage\<close> has
  emitted so far. The two methods that drop the observable return \<^verbatim>\<open>undefined\<close> at once.
\<close>

definition await :: "call \<Rightarrow> message notification list \<Rightarrow> reply promise" where
  "await c obs =
     (case c of
        Call_sendPermissionResponse i accs allowed responseDate \<Rightarrow> Resolved Reply_undefined
      | Call_sendTransactionRequestResponse txID approved r e s \<Rightarrow> Resolved Reply_undefined
      | Call_disconnectApp origin specificAccounts \<Rightarrow>
          map_promise (\<lambda>m. Reply_undefined) (first_of obs)
      | Call_getEntropy password \<Rightarrow> map_promise Reply_text (first_mapped getEntropy_map obs)
      | Call_signData addressOrID bytes \<Rightarrow> map_promise Reply_text (first_mapped signData_map obs)
      | Call_deriveNextAccount \<Rightarrow>
          map_promise Reply_text (first_mapped deriveNextAccount_map obs)
      | Call_exportAccount password accountAddress \<Rightarrow>
          map_promise Reply_text (first_mapped exportAccount_map obs)
      | Call_fetchPendingQredoConnectRequest requestID \<Rightarrow>
          map_promise Reply_optional (first_mapped fetchPendingQredoConnectRequest_map obs)
      | Call_getQredoConnectionInfo qredoID refreshAccessToken \<Rightarrow>
          map_promise Reply_optional (first_mapped getQredoConnectionInfo_map obs)
      | Call_acceptQredoConnection args \<Rightarrow>
          map_promise Reply_accounts (first_mapped acceptQredoConnection_map obs)
      | Call_getStoredEntities t \<Rightarrow>
          map_promise Reply_entities (first_mapped (getStoredEntities_map t) obs)
      | Call_createMnemonicAccountSource password entropy \<Rightarrow>
          map_promise Reply_accountSource (first_mapped createMnemonicAccountSource_map obs)
      | Call_createAccounts inputs \<Rightarrow>
          map_promise Reply_accounts (first_mapped (createAccounts_map inputs) obs)
      | Call_deleteAccountSourceByType t \<Rightarrow>
          map_promise Reply_bool (first_mapped deleteAccountSourceByType_map obs)
      | Call_getStorageMigrationStatus \<Rightarrow>
          map_promise Reply_text (first_mapped getStorageMigrationStatus_map obs)
      | Call_getAccountSourceEntropy accountSourceID \<Rightarrow>
          map_promise Reply_text (first_mapped getAccountSourceEntropy_map obs)
      | _ \<Rightarrow> map_promise Reply_message (first_of obs))"

subsection \<open>Incoming messages\<close>

definition run_dispatch :: "action \<Rightarrow> world \<Rightarrow> world" where
  "run_dispatch a w = w\<lparr>dispatched := dispatched w @ [a]\<rparr>"

fun entitiesToClientQueryKeys :: "ui_accessible_entity_type \<Rightarrow> query_key option" where
  "entitiesToClientQueryKeys Entity_accounts = Some accountsQueryKey"
| "entitiesToClientQueryKeys Entity_accountSources = Some accountSourcesQueryKey"

text \<open>
  \<^verbatim>\<open>handleIncomingMessage\<close>, lines 656 to 684. The chain of type guards is a match on the
  constructor; the branches that set \<^verbatim>\<open>action\<close> dispatch it (an action object is truthy).
\<close>

definition handleIncomingMessage :: "message \<Rightarrow> world \<Rightarrow> unit outcome" where
  "handleIncomingMessage msg w =
     (if \<not> initialized w \<or> dispatch w = None
      then (Inl (Error ''BackgroundClient is not initialized to handle incoming messages''), w)
      else (Inr (),
        case msg_payload msg of
          PermissionRequests permissions \<Rightarrow> run_dispatch (setPermissions permissions) w
        | GetTransactionRequestsResponse txRequests \<Rightarrow>
            run_dispatch (setTransactionRequests txRequests) w
        | UpdateActiveOrigin origin favIcon \<Rightarrow> run_dispatch (setActiveOrigin origin favIcon) w
        | LoadedFeaturesPayload features attributes \<Rightarrow>
            w\<lparr>growthbook_attributes := Some attributes, growthbook_features := Some features\<rparr>
        | SetNetworkPayload network \<Rightarrow> run_dispatch (changeActiveNetwork network) w
        | MethodPayload (M_entitiesUpdated t) \<Rightarrow>
            (case entitiesToClientQueryKeys t of
               Some entitiesQueryKey \<Rightarrow> w\<lparr>invalidated := invalidated w @ [entitiesQueryKey]\<rparr>
             | None \<Rightarrow> w)
        | _ \<Rightarrow> w))"

text \<open>
  Modelled from the spec: the six type guards of the chain, which are imported (section
  9: a run-time check of the payload's discriminant).
\<close>

definition isPermissionRequests :: "payload \<Rightarrow> bool" where
  "isPermissionRequests p = (case p of PermissionRequests permissions \<Rightarrow> True | _ \<Rightarrow> False)"

definition isGetTransactionRequestsResponse :: "payload \<Rightarrow> bool" where
  "isGetTransactionRequestsResponse p =
     (case p of GetTransactionRequestsResponse txRequests \<Rightarrow> True | _ \<Rightarrow> False)"

definition isUpdateActiveOrigin :: "payload \<Rightarrow> bool" where
  "isUpdateActiveOrigin p = (case p of UpdateActiveOrigin origin favIcon \<Rightarrow> True | _ \<Rightarrow> False)"

definition isLoadedFeaturesPayload :: "payload \<Rightarrow> bool" where
  "isLoadedFeaturesPayload p =
     (case p of LoadedFeaturesPayload features attributes \<Rightarrow> True | _ \<Rightarrow> False)"

definition isSetNetworkPayload :: "payload \<Rightarrow> bool" where
  "isSetNetworkPayload p = (case p of SetNetworkPayload network \<Rightarrow> True | _ \<Rightarrow> False)"

definition isMethodPayload_entitiesUpdated :: "payload \<Rightarrow> bool" where
  "isMethodPayload_entitiesUpdated p =
     (case p of MethodPayload (M_entitiesUpdated t) \<Rightarrow> True | _ \<Rightarrow> False)"

definition recognized :: "payload \<Rightarrow> bool" where
  "recognized p =
     (isPermissionRequests p \<or> isGetTransactionRequestsResponse p \<or> isUpdateActiveOrigin p
      \<or> isLoadedFeaturesPayload p \<or> isSetNetworkPayload p \<or> isMethodPayload_entitiesUpdated p)"

subsection \<open>Port, status updates and \<^verbatim>\<open>init\<close>\<close>

text \<open>\<^verbatim>\<open>createPortStream\<close>, lines 686 to 692.\<close>

definition createPortStream :: "world \<Rightarrow> world" where
  "createPortStream w =
     (let ps = connectToBackgroundService ''sui_ui<->background'';
          ps = ps\<lparr>onDisconnect := onDisconnect ps @ [Handler_createPortStream]\<rparr>;
          ps = ps\<lparr>onMessage := onMessage ps @ [Handler_handleIncomingMessage]\<rparr>
      in w\<lparr>portStream := Some ps\<rparr>)"

definition APP_STATUS_UPDATE_INTERVAL :: nat where
  "APP_STATUS_UPDATE_INTERVAL = 20 * 1000"

text \<open>\<^verbatim>\<open>sendAppStatus\<close>, lines 625 to 634: the observable is dropped.\<close>

definition sendAppStatus :: "world \<Rightarrow> unit outcome" where
  "sendAppStatus w =
     (let active = (visibilityState w = ''visible'') in
      case post (Keyring (K_appStatusUpdate active)) w of
        (Inl e, w') \<Rightarrow> (Inl e, w')
      | (Inr rid, w') \<Rightarrow> (Inr (), w'))"

definition setupAppStatusUpdateInterval :: "world \<Rightarrow> world" where
  "setupAppStatusUpdateInterval w =
     w\<lparr>intervals := intervals w @ [(Callback_sendAppStatus, APP_STATUS_UPDATE_INTERVAL)]\<rparr>"

definition and_then :: "'a outcome \<Rightarrow> ('a \<Rightarrow> world \<Rightarrow> 'b outcome) \<Rightarrow> 'b outcome" where
  "and_then r f = (case r of (Inl e, w) \<Rightarrow> (Inl e, w) | (Inr x, w) \<Rightarrow> f x w)"

text \<open>
  \<^verbatim>\<open>init\<close>, lines 64 to 79, up to the point where it returns its promise: the ids of the
  four requests whose promises \<^verbatim>\<open>Promise.all\<close> joins.
\<close>

definition init :: "app_dispatch \<Rightarrow> world \<Rightarrow> (nat list) outcome" where
  "init d w =
     (if initialized w
      then (Inl (Error ''[BackgroundClient] already initialized''), w)
      else
        and_then (sendAppStatus (createPortStream (w\<lparr>initialized := True, dispatch := Some d\<rparr>)))
          (\<lambda>u w. and_then (invoke Call_sendGetPermissionRequests (setupAppStatusUpdateInterval w))
          (\<lambda>a w. and_then (invoke Call_sendGetTransactionRequests w)
          (\<lambda>b w. and_then (invoke Call_loadFeatures w)
          (\<lambda>c w. and_then (invoke Call_getNetwork w)
          (\<lambda>d w. (Inr [a, b, c, d], w)))))))"

text \<open>
  \<^verbatim>\<open>Promise.all\<close>: resolved when all are, rejected when one is. (The order in time of two
  rejections is not modelled; the promises joined here never reject.)
\<close>

fun promise_all :: "'a promise list \<Rightarrow> 'a list promise" where
  "promise_all [] = Resolved []"
| "promise_all (Rejected e # ps) = Rejected e"
| "promise_all (Pending # ps) =
     (case promise_all ps of Rejected e \<Rightarrow> Rejected e | _ \<Rightarrow> Pending)"
| "promise_all (Resolved v # ps) =
     (case promise_all ps of
        Rejected e \<Rightarrow> Rejected e
      | Pending \<Rightarrow> Pending
      | Resolved vs \<Rightarrow> Resolved (v # vs))"

definition init_calls :: "call list" where
  "init_calls =
     [Call_sendGetPermissionRequests, Call_sendGetTransactionRequests, Call_loadFeatures,
      Call_getNetwork]"

text \<open>The promise \<^verbatim>\<open>init\<close> returned, after the messages \<open>incoming\<close> have arrived.\<close>

definition init_promise :: "nat list \<Rightarrow> message list \<Rightarrow> unit promise" where
  "init_promise ids incoming =
     map_promise (\<lambda>vs. ())
       (promise_all (map (\<lambda>(c, rid). await c (responses rid incoming)) (zip init_calls ids)))"

subsection \<open>Events\<close>

text \<open>
  The events of the transport channel and the browser's timer, none of which is code of
  this file.
\<close>

fun run_disconnect_handler :: "handler \<Rightarrow> world \<Rightarrow> world" where
  "run_disconnect_handler Handler_createPortStream w = createPortStream w"
| "run_disconnect_handler Handler_handleIncomingMessage w = w"

text \<open>
  Modelled from the spec: the event \<open>onDisconnect\<close> of section 4.1. The channel is
  marked disconnected and the subscribers of \<open>onDisconnect\<close> run.
\<close>

definition port_disconnects :: "world \<Rightarrow> world" where
  "port_disconnects w =
     (case portStream w of
        None \<Rightarrow> w
      | Some ps \<Rightarrow>
          fold run_disconnect_handler (onDisconnect ps)
            (w\<lparr>portStream := Some (ps\<lparr>connected := False\<rparr>)\<rparr>))"

text \<open>
  Modelled from the spec: the event \<open>onMessage\<close> of section 4.1. A message that arrives
  is passed to the subscribers of \<open>onMessage\<close>.
\<close>

definition port_receives :: "message \<Rightarrow> world \<Rightarrow> unit outcome" where
  "port_receives msg w =
     (case portStream w of
        None \<Rightarrow> (Inr (), w)
      | Some ps \<Rightarrow>
          if Handler_handleIncomingMessage \<in> set (onMessage ps)
          then handleIncomingMessage msg w
          else (Inr (), w))"

text \<open>A timer set with \<^verbatim>\<open>setInterval\<close> fires: its callback runs.\<close>

fun timer_fires :: "timer_callback \<Rightarrow> world \<Rightarrow> unit outcome" where
  "timer_fires Callback_sendAppStatus w = sendAppStatus w"

subsection \<open>Notions used in the statements\<close>

text \<open>The test of \<^verbatim>\<open>sendMessage\<close> fails: there is no port stream, or it is not connected.\<close>

definition channel_down :: "world \<Rightarrow> bool" where
  "channel_down w = (case portStream w of None \<Rightarrow> True | Some ps \<Rightarrow> \<not> connected ps)"

text \<open>
  The \<^verbatim>\<open>type\<close> and \<^verbatim>\<open>method\<close> that the callback of \<^verbatim>\<open>map\<close> tests for, for the thirteen
  methods that have one (the arguments of \<^verbatim>\<open>isKeyringPayload\<close>, \<^verbatim>\<open>isMethodPayload\<close> and
  \<^verbatim>\<open>isQredoConnectPayload\<close> in the source).
\<close>

definition expected_discriminant :: "call \<Rightarrow> (string \<times> string) option" where
  "expected_discriminant c =
     (case c of
        Call_getEntropy password \<Rightarrow> Some (''keyring'', ''getEntropy'')
      | Call_signData addressOrID bytes \<Rightarrow> Some (''method-payload'', ''signDataResponse'')
      | Call_deriveNextAccount \<Rightarrow> Some (''keyring'', ''deriveNextAccount'')
      | Call_exportAccount password accountAddress \<Rightarrow> Some (''keyring'', ''exportAccount'')
      | Call_fetchPendingQredoConnectRequest requestID \<Rightarrow>
          Some (''qredo-connect'', ''getPendingRequestResponse'')
      | Call_getQredoConnectionInfo qredoID refreshAccessToken \<Rightarrow>
          Some (''qredo-connect'', ''getQredoInfoResponse'')
      | Call_acceptQredoConnection args \<Rightarrow>
          Some (''qredo-connect'', ''acceptQredoConnectionResponse'')
      | Call_getStoredEntities t \<Rightarrow> Some (''method-payload'', ''storedEntitiesResponse'')
      | Call_createMnemonicAccountSource password entropy \<Rightarrow>
          Some (''method-payload'', ''accountSourceCreationResponse'')
      | Call_createAccounts inputs \<Rightarrow> Some (''method-payload'', ''accountsCreatedResponse'')
      | Call_deleteAccountSourceByType t \<Rightarrow>
          Some (''method-payload'', ''deleteAccountSourceByTypeResponse'')
      | Call_getStorageMigrationStatus \<Rightarrow> Some (''method-payload'', ''storageMigrationStatus'')
      | Call_getAccountSourceEntropy accountSourceID \<Rightarrow>
          Some (''method-payload'', ''getAccountSourceEntropyResponse'')
      | _ \<Rightarrow> None)"

definition has_discriminant :: "payload \<Rightarrow> string \<times> string \<Rightarrow> bool" where
  "has_discriminant p d = (payload_type p = Some (fst d) \<and> payload_method p = Some (snd d))"

text \<open>The port stream as \<^verbatim>\<open>createPortStream\<close> leaves it.\<close>

definition fresh_port :: port_stream where
  "fresh_port =
     \<lparr>port_name = ''sui_ui<->background'', connected = True, posted = [],
      onDisconnect = [Handler_createPortStream], onMessage = [Handler_handleIncomingMessage]\<rparr>"

text \<open>
  The worlds a client can be in: it starts as \<open>new_client\<close>; then methods are called,
  the port disconnects or delivers a message, a timer that was set fires, and the
  document is shown or hidden.
\<close>

inductive reachable :: "world \<Rightarrow> bool" where
  reach_new: "reachable (new_client visibility)"
| reach_init: "reachable w \<Longrightarrow> reachable (snd (init d w))"
| reach_invoke: "reachable w \<Longrightarrow> reachable (snd (invoke c w))"
| reach_disconnect: "reachable w \<Longrightarrow> reachable (port_disconnects w)"
| reach_receive: "reachable w \<Longrightarrow> reachable (snd (port_receives msg w))"
| reach_timer:
    "reachable w \<Longrightarrow> (cb, period) \<in> set (intervals w) \<Longrightarrow> reachable (snd (timer_fires cb w))"
| reach_visibility: "reachable w \<Longrightarrow> reachable (w\<lparr>visibilityState := visibility\<rparr>)"

definition client_invariant :: "world \<Rightarrow> bool" where
  "client_invariant w =
     (if initialized w
      then dispatch w \<noteq> None
         \<and> intervals w = [(Callback_sendAppStatus, APP_STATUS_UPDATE_INTERVAL)]
         \<and> (case portStream w of
               None \<Rightarrow> False
             | Some ps \<Rightarrow> connected ps \<and> onDisconnect ps = [Handler_createPortStream]
                           \<and> onMessage ps = [Handler_handleIncomingMessage])
      else dispatch w = None \<and> intervals w = [] \<and> portStream w = None)"

section \<open>Properties\<close>

subsection \<open>Sending\<close>

lemma post_down:
  "channel_down w \<Longrightarrow>
   post p w = (Inl (Error ''Failed to send message to background service. Port not connected.''),
               w\<lparr>nextId := Suc (nextId w)\<rparr>)"
  by (auto simp: channel_down_def post_def createMessage_def sendMessage_def split: option.splits)

lemma post_up:
  "portStream w = Some ps \<Longrightarrow> connected ps \<Longrightarrow>
   post p w = (Inr (nextId w),
               w\<lparr>nextId := Suc (nextId w),
                 portStream := Some (ps\<lparr>posted := posted ps @ [\<lparr>msg_id = nextId w, msg_payload = p\<rparr>]\<rparr>)\<rparr>)"
  by (simp add: post_def createMessage_def sendMessage_def PortStream_sendMessage_def)

lemma createPortStream_eq: "createPortStream w = w\<lparr>portStream := Some fresh_port\<rparr>"
  by (simp add: createPortStream_def connectToBackgroundService_def fresh_port_def)

subsection \<open>Awaiting\<close>

lemma take_rx_1_Next: "take_rx 1 (Next v # ns) = [Next v, Complete]"
  by (simp add: One_nat_def del: One_nat_def[symmetric])

lemma first_of_Next: "first_of (Next m # later) = Resolved m"
  by (simp add: first_of_def lastValueFrom_def take_rx_1_Next)

lemma first_mapped_Next:
  "first_mapped f (Next m # later) = (case f m of Inl e \<Rightarrow> Rejected e | Inr v \<Rightarrow> Resolved v)"
  by (simp add: first_mapped_def lastValueFrom_def take_rx_1_Next split: sum.splits)

lemma first_of_Nil: "first_of [] = Pending"
  by (simp add: first_of_def lastValueFrom_def)

lemma first_mapped_Nil: "first_mapped f [] = Pending"
  by (simp add: first_mapped_def lastValueFrom_def)

lemma first_of_settled:
  "first_of obs \<noteq> Pending \<Longrightarrow> first_of (obs @ rest) = first_of obs"
proof (cases obs)
  case Nil
  then show "first_of obs \<noteq> Pending \<Longrightarrow> ?thesis" by (simp add: first_of_Nil)
next
  case (Cons n ns)
  then show ?thesis
    by (cases n) (simp_all add: first_of_def lastValueFrom_def)
qed

lemma first_mapped_settled:
  "first_mapped f obs \<noteq> Pending \<Longrightarrow> first_mapped f (obs @ rest) = first_mapped f obs"
proof (cases obs)
  case Nil
  then show "first_mapped f obs \<noteq> Pending \<Longrightarrow> ?thesis" by (simp add: first_mapped_Nil)
next
  case (Cons n ns)
  then show ?thesis
    by (cases n) (simp_all add: first_mapped_def lastValueFrom_def)
qed

lemma await_Next_indep: "await c (Next r # later) = await c [Next r]"
  by (cases c) (simp_all add: await_def first_of_Next first_mapped_Next)

lemma await_Next_settled: "await c (Next r # later) \<noteq> Pending"
  by (cases c) (simp_all add: await_def first_of_Next first_mapped_Next split: sum.splits)

lemma await_Nil: "awaits c \<Longrightarrow> await c [] = Pending"
  by (cases c) (simp_all add: await_def awaits_def first_of_Nil first_mapped_Nil)

lemma map_promise_Pending: "map_promise g p = Pending \<longleftrightarrow> p = Pending"
  by (cases p) simp_all

lemma await_settled: "await c obs \<noteq> Pending \<Longrightarrow> await c (obs @ rest) = await c obs"
  by (cases c) (simp_all add: await_def map_promise_Pending first_of_settled first_mapped_settled)

lemma responses_first:
  "msg_id r = rid \<Longrightarrow> \<forall>m\<in>set before. msg_id m \<noteq> rid \<Longrightarrow>
   responses rid (before @ r # later) = Next r # responses rid later"
  by (simp add: responses_def filter_empty_conv[THEN iffD2])

subsection \<open>\<^verbatim>\<open>init\<close> and the reachable worlds\<close>

text \<open>
  The port stream \<^verbatim>\<open>init\<close> creates is connected, so a first \<^verbatim>\<open>init\<close> sends its five
  messages whatever the world was.
\<close>

lemma init_fresh:
  "\<not> initialized w \<Longrightarrow>
   init d w =
     (Inr [nextId w + 1, nextId w + 2, nextId w + 3, nextId w + 4],
      w\<lparr>initialized := True, dispatch := Some d, nextId := nextId w + 5,
        intervals := intervals w @ [(Callback_sendAppStatus, APP_STATUS_UPDATE_INTERVAL)],
        portStream := Some (fresh_port\<lparr>posted :=
          [\<lparr>msg_id = nextId w,
            msg_payload = Keyring (K_appStatusUpdate (visibilityState w = ''visible''))\<rparr>,
           \<lparr>msg_id = nextId w + 1, msg_payload = GetPermissionRequests\<rparr>,
           \<lparr>msg_id = nextId w + 2, msg_payload = GetTransactionRequests\<rparr>,
           \<lparr>msg_id = nextId w + 3, msg_payload = GetFeatures\<rparr>,
           \<lparr>msg_id = nextId w + 4, msg_payload = GetNetwork\<rparr>]\<rparr>)\<rparr>)"
  by (simp add: init_def createPortStream_eq fresh_port_def sendAppStatus_def post_def
        createMessage_def sendMessage_def PortStream_sendMessage_def and_then_def
        setupAppStatusUpdateInterval_def invoke_def request_of_def)

lemma init_again:
  "initialized w \<Longrightarrow> init d w = (Inl (Error ''[BackgroundClient] already initialized''), w)"
  by (simp add: init_def)

lemma init_new_client:
  "init (AppDispatch 0) (new_client ''visible'') =
     (Inr [1, 2, 3, 4],
      \<lparr>portStream = Some (fresh_port\<lparr>posted :=
          [\<lparr>msg_id = 0, msg_payload = Keyring (K_appStatusUpdate True)\<rparr>,
           \<lparr>msg_id = 1, msg_payload = GetPermissionRequests\<rparr>,
           \<lparr>msg_id = 2, msg_payload = GetTransactionRequests\<rparr>,
           \<lparr>msg_id = 3, msg_payload = GetFeatures\<rparr>,
           \<lparr>msg_id = 4, msg_payload = GetNetwork\<rparr>]\<rparr>),
       dispatch = Some (AppDispatch 0), initialized = True, nextId = 5,
       visibilityState = ''visible'',
       intervals = [(Callback_sendAppStatus, APP_STATUS_UPDATE_INTERVAL)], dispatched = [],
       growthbook_attributes = None, growthbook_features = None, invalidated = []\<rparr>)"
  by (simp add: init_fresh new_client_def)

lemma invariant_post: "client_invariant w \<Longrightarrow> client_invariant (snd (post p w))"
  by (auto simp: client_invariant_def post_def createMessage_def sendMessage_def
        PortStream_sendMessage_def split: option.splits if_splits)

lemma invariant_sendAppStatus: "client_invariant w \<Longrightarrow> client_invariant (snd (sendAppStatus w))"
proof -
  have "snd (sendAppStatus w)
      = snd (post (Keyring (K_appStatusUpdate (visibilityState w = ''visible''))) w)"
    by (simp add: sendAppStatus_def split: prod.splits sum.splits)
  then show "client_invariant w \<Longrightarrow> ?thesis" by (simp add: invariant_post)
qed

lemma invariant_init: "client_invariant w \<Longrightarrow> client_invariant (snd (init d w))"
  by (cases "initialized w")
     (simp_all add: init_again init_fresh client_invariant_def fresh_port_def)

lemma invariant_handleIncomingMessage:
  "client_invariant w \<Longrightarrow> client_invariant (snd (handleIncomingMessage msg w))"
  by (auto simp: client_invariant_def handleIncomingMessage_def run_dispatch_def
        split: payload.splits method_payload.splits option.splits if_splits)

lemma invariant_port_receives:
  "client_invariant w \<Longrightarrow> client_invariant (snd (port_receives msg w))"
  by (simp add: port_receives_def invariant_handleIncomingMessage split: option.splits)

lemma invariant_port_disconnects:
  "client_invariant w \<Longrightarrow> client_invariant (port_disconnects w)"
  by (auto simp: client_invariant_def port_disconnects_def createPortStream_eq fresh_port_def
        split: option.splits if_splits)

lemma reachable_invariant: "reachable w \<Longrightarrow> client_invariant w"
proof (induction rule: reachable.induct)
  case (reach_new visibility)
  show ?case by (simp add: client_invariant_def new_client_def)
next
  case (reach_init w d)
  then show ?case by (simp add: invariant_init)
next
  case (reach_invoke w c)
  then show ?case by (simp add: invoke_def invariant_post)
next
  case (reach_disconnect w)
  then show ?case by (simp add: invariant_port_disconnects)
next
  case (reach_receive w msg)
  then show ?case by (simp add: invariant_port_receives)
next
  case (reach_timer w cb period)
  then show ?case by (cases cb) (simp add: invariant_sendAppStatus)
next
  case (reach_visibility w visibility)
  then show ?case by (simp add: client_invariant_def)
qed

lemma disconnect_of_invariant:
  "client_invariant w \<Longrightarrow> portStream w = Some ps \<Longrightarrow>
   port_disconnects w = w\<lparr>portStream := Some fresh_port\<rparr>"
  by (auto simp: client_invariant_def port_disconnects_def createPortStream_eq split: if_splits)

subsection \<open>A response of the wrong shape\<close>

lemma getEntropy_map_mismatch:
  "\<not> has_discriminant (msg_payload msg) (''keyring'', ''getEntropy'') \<Longrightarrow>
   getEntropy_map msg = Inl (Error ''Mnemonic not found'')"
  by (auto simp: has_discriminant_def getEntropy_map_def
        split: payload.splits keyring_payload.splits)

lemma signData_map_mismatch:
  "\<not> has_discriminant (msg_payload msg) (''method-payload'', ''signDataResponse'') \<Longrightarrow>
   signData_map msg = Inl (Error ''Error unknown response for signData message'')"
  by (auto simp: has_discriminant_def signData_map_def
        split: payload.splits method_payload.splits)

lemma deriveNextAccount_map_mismatch:
  "\<not> has_discriminant (msg_payload msg) (''keyring'', ''deriveNextAccount'') \<Longrightarrow>
   deriveNextAccount_map msg = Inl (Error ''Error unknown response for derive account message'')"
  by (auto simp: has_discriminant_def deriveNextAccount_map_def
        split: payload.splits keyring_payload.splits)

lemma exportAccount_map_mismatch:
  "\<not> has_discriminant (msg_payload msg) (''keyring'', ''exportAccount'') \<Longrightarrow>
   exportAccount_map msg = Inl (Error ''Error unknown response for export account message'')"
  by (auto simp: has_discriminant_def exportAccount_map_def
        split: payload.splits keyring_payload.splits)

lemma fetchPendingQredoConnectRequest_map_mismatch:
  "\<not> has_discriminant (msg_payload msg) (''qredo-connect'', ''getPendingRequestResponse'') \<Longrightarrow>
   fetchPendingQredoConnectRequest_map msg
     = Inl (Error ''Error unknown response for fetch pending qredo requests message'')"
  by (auto simp: has_discriminant_def fetchPendingQredoConnectRequest_map_def
        split: payload.splits qredo_connect_payload.splits)

lemma getQredoConnectionInfo_map_mismatch:
  "\<not> has_discriminant (msg_payload msg) (''qredo-connect'', ''getQredoInfoResponse'') \<Longrightarrow>
   getQredoConnectionInfo_map msg
     = Inl (Error ''Error unknown response for get qredo info message'')"
  by (auto simp: has_discriminant_def getQredoConnectionInfo_map_def
        split: payload.splits qredo_connect_payload.splits)

lemma acceptQredoConnection_map_mismatch:
  "\<not> has_discriminant (msg_payload msg) (''qredo-connect'', ''acceptQredoConnectionResponse'') \<Longrightarrow>
   acceptQredoConnection_map msg
     = Inl (Error ''Error unknown response for accept qredo connection'')"
  by (auto simp: has_discriminant_def acceptQredoConnection_map_def
        split: payload.splits qredo_connect_payload.splits)

lemma getStoredEntities_map_mismatch:
  "\<not> has_discriminant (msg_payload msg) (''method-payload'', ''storedEntitiesResponse'') \<Longrightarrow>
   getStoredEntities_map t msg = Inl (Error ''Unknown response'')"
  by (auto simp: has_discriminant_def getStoredEntities_map_def
        split: payload.splits method_payload.splits)

lemma createMnemonicAccountSource_map_mismatch:
  "\<not> has_discriminant (msg_payload msg) (''method-payload'', ''accountSourceCreationResponse'') \<Longrightarrow>
   createMnemonicAccountSource_map msg = Inl (Error ''Unknown response'')"
  by (auto simp: has_discriminant_def createMnemonicAccountSource_map_def
        split: payload.splits method_payload.splits)

lemma createAccounts_map_mismatch:
  "\<not> has_discriminant (msg_payload msg) (''method-payload'', ''accountsCreatedResponse'') \<Longrightarrow>
   createAccounts_map inputs msg = Inl (Error ''Unknown response'')"
  by (auto simp: has_discriminant_def createAccounts_map_def
        split: payload.splits method_payload.splits)

lemma deleteAccountSourceByType_map_mismatch:
  "\<not> has_discriminant (msg_payload msg)
       (''method-payload'', ''deleteAccountSourceByTypeResponse'') \<Longrightarrow>
   deleteAccountSourceByType_map msg = Inl (Error ''Unknown response'')"
  by (auto simp: has_discriminant_def deleteAccountSourceByType_map_def
        split: payload.splits method_payload.splits)

lemma getStorageMigrationStatus_map_mismatch:
  "\<not> has_discriminant (msg_payload msg) (''method-payload'', ''storageMigrationStatus'') \<Longrightarrow>
   getStorageMigrationStatus_map msg = Inl (Error ''Unknown response'')"
  by (auto simp: has_discriminant_def getStorageMigrationStatus_map_def
        split: payload.splits method_payload.splits)

lemma getAccountSourceEntropy_map_mismatch:
  "\<not> has_discriminant (msg_payload msg)
       (''method-payload'', ''getAccountSourceEntropyResponse'') \<Longrightarrow>
   getAccountSourceEntropy_map msg = Inl (Error ''Unexpected response type'')"
  by (auto simp: has_discriminant_def getAccountSourceEntropy_map_def
        split: payload.splits method_payload.splits)

lemmas map_mismatch =
  getEntropy_map_mismatch signData_map_mismatch deriveNextAccount_map_mismatch
  exportAccount_map_mismatch fetchPendingQredoConnectRequest_map_mismatch
  getQredoConnectionInfo_map_mismatch acceptQredoConnection_map_mismatch
  getStoredEntities_map_mismatch createMnemonicAccountSource_map_mismatch
  createAccounts_map_mismatch deleteAccountSourceByType_map_mismatch
  getStorageMigrationStatus_map_mismatch getAccountSourceEntropy_map_mismatch

text \<open>
  C1, as the code has it. Each of the thirteen methods that project a result out of the
  response (\<^verbatim>\<open>getEntropy\<close>, \<^verbatim>\<open>signData\<close>, \<^verbatim>\<open>deriveNextAccount\<close>, \<^verbatim>\<open>exportAccount\<close>, the
  three qredo-connect queries, \<^verbatim>\<open>getStoredEntities\<close>, \<^verbatim>\<open>createMnemonicAccountSource\<close>,
  \<^verbatim>\<open>createAccounts\<close>, \<^verbatim>\<open>deleteAccountSourceByType\<close>, \<^verbatim>\<open>getStorageMigrationStatus\<close>,
  \<^verbatim>\<open>getAccountSourceEntropy\<close>) rejects, and returns no value, when the first response's
  \<^verbatim>\<open>type\<close> and \<^verbatim>\<open>method\<close> are not the ones it tests for. The error is one of the
  unknown-response messages (\<open>UnexpectedResponseShape\<close>) for every method but
  \<^verbatim>\<open>getEntropy\<close>, whose error is \<^verbatim>\<open>Mnemonic not found\<close> (\<open>MnemonicNotFound\<close>).
\<close>

theorem mismatched_response_rejects:
  assumes "expected_discriminant c = Some d"
      and "\<not> has_discriminant (msg_payload msg) d"
  shows "\<exists>e. await c (Next msg # later) = Rejected e
           \<and> ((\<exists>password. c = Call_getEntropy password) \<longrightarrow> MnemonicNotFound e)
           \<and> ((\<forall>password. c \<noteq> Call_getEntropy password) \<longrightarrow> UnexpectedResponseShape e)"
  using assms
  by (cases c)
     (auto simp: expected_discriminant_def await_def first_mapped_Next map_mismatch
           MnemonicNotFound_def UnexpectedResponseShape_def)

theorem mismatched_response_rejects_witness:
  "expected_discriminant (Call_signData ''0x1'' [1, 2]) = Some (''method-payload'', ''signDataResponse'')
   \<and> \<not> has_discriminant (Keyring (K_other ''signData'')) (''method-payload'', ''signDataResponse'')
   \<and> await (Call_signData ''0x1'' [1, 2])
        [Next \<lparr>msg_id = 0, msg_payload = Keyring (K_other ''signData'')\<rparr>]
       = Rejected (Error ''Error unknown response for signData message'')
   \<and> UnexpectedResponseShape (Error ''Error unknown response for signData message'')
   \<and> expected_discriminant (Call_getEntropy None) = Some (''keyring'', ''getEntropy'')
   \<and> \<not> has_discriminant (OtherPayload ''error'') (''keyring'', ''getEntropy'')
   \<and> await (Call_getEntropy None) [Next \<lparr>msg_id = 0, msg_payload = OtherPayload ''error''\<rparr>]
       = Rejected (Error ''Mnemonic not found'')
   \<and> MnemonicNotFound (Error ''Mnemonic not found'')"
  using mismatched_response_rejects
    [where c = "Call_signData ''0x1'' [1, 2]" and d = "(''method-payload'', ''signDataResponse'')"
       and msg = "\<lparr>msg_id = 0, msg_payload = Keyring (K_other ''signData'')\<rparr>" and later = "[]"]
    mismatched_response_rejects
    [where c = "Call_getEntropy None" and d = "(''keyring'', ''getEntropy'')"
       and msg = "\<lparr>msg_id = 0, msg_payload = OtherPayload ''error''\<rparr>" and later = "[]"]
  by (simp add: expected_discriminant_def has_discriminant_def await_def first_mapped_Next
        signData_map_def getEntropy_map_def UnexpectedResponseShape_def MnemonicNotFound_def)

text \<open>
  C1 as it was stated asks for \<open>UnexpectedResponseShape\<close> from \<^verbatim>\<open>getEntropy\<close> too. A
  \<^verbatim>\<open>signDataResponse\<close> answering \<^verbatim>\<open>getEntropy\<close> has the wrong discriminant, and the call
  rejects with \<^verbatim>\<open>Mnemonic not found\<close>, which is not one of the unknown-response messages.
\<close>

theorem getEntropy_mismatch_counterexample:
  "expected_discriminant (Call_getEntropy None) = Some (''keyring'', ''getEntropy'')
   \<and> \<not> has_discriminant (MethodPayload (M_signDataResponse ''sig'')) (''keyring'', ''getEntropy'')
   \<and> await (Call_getEntropy None)
        [Next \<lparr>msg_id = 0, msg_payload = MethodPayload (M_signDataResponse ''sig'')\<rparr>]
       = Rejected (Error ''Mnemonic not found'')
   \<and> \<not> UnexpectedResponseShape (Error ''Mnemonic not found'')"
  by (simp add: expected_discriminant_def has_discriminant_def await_def first_mapped_Next
        getEntropy_map_def UnexpectedResponseShape_def starts_with_def)

subsection \<open>The channel\<close>

text \<open>
  C2. When there is no port stream or it is not connected, every method that sends,
  and \<^verbatim>\<open>sendAppStatus\<close>, throws the port-not-connected error (\<open>ChannelNotConnected\<close>).
  The world it leaves differs from the one it found only in the id that was drawn: the
  message is posted on no port stream and is kept nowhere, and the port stream a later
  \<^verbatim>\<open>createPortStream\<close> installs has nothing posted.
\<close>

theorem send_while_disconnected_fails:
  assumes "channel_down w"
  shows "\<exists>e. ChannelNotConnected e
           \<and> invoke c w = (Inl e, w\<lparr>nextId := Suc (nextId w)\<rparr>)
           \<and> sendAppStatus w = (Inl e, w\<lparr>nextId := Suc (nextId w)\<rparr>)
           \<and> portStream (snd (invoke c w)) = portStream w
           \<and> (\<forall>ps. portStream (createPortStream (snd (invoke c w))) = Some ps \<longrightarrow> posted ps = [])"
  using assms
  by (simp add: ChannelNotConnected_def invoke_def sendAppStatus_def post_down
        createPortStream_def connectToBackgroundService_def)

theorem send_while_disconnected_fails_witness:
  "channel_down (new_client ''visible'')
   \<and> invoke (Call_unlockWallet ''pw'') (new_client ''visible'')
       = (Inl (Error ''Failed to send message to background service. Port not connected.''),
          (new_client ''visible'')\<lparr>nextId := 1\<rparr>)
   \<and> portStream (createPortStream (snd (invoke (Call_unlockWallet ''pw'') (new_client ''visible''))))
       = Some fresh_port
   \<and> posted fresh_port = []
   \<and> channel_down ((new_client ''visible'')\<lparr>portStream := Some (fresh_port\<lparr>connected := False\<rparr>)\<rparr>)
   \<and> fst (invoke (Call_signData ''0x1'' [7])
        ((new_client ''visible'')\<lparr>portStream := Some (fresh_port\<lparr>connected := False\<rparr>)\<rparr>))
       = Inl (Error ''Failed to send message to background service. Port not connected.'')"
  using send_while_disconnected_fails [of "new_client ''visible''" "Call_unlockWallet ''pw''"]
    send_while_disconnected_fails
      [of "(new_client ''visible'')\<lparr>portStream := Some (fresh_port\<lparr>connected := False\<rparr>)\<rparr>"
          "Call_signData ''0x1'' [7]"]
  by (auto simp: channel_down_def new_client_def ChannelNotConnected_def createPortStream_eq
        fresh_port_def)

text \<open>
  C3. In every reachable world that has a port stream, a disconnect makes the client
  run \<^verbatim>\<open>createPortStream\<close> again: the port stream is replaced by a new, connected one with
  the disconnect and message handlers subscribed. Nothing is posted on the new port
  stream, whatever was posted on the old one, and no message is created (the id supply
  is untouched): no request is sent again.
\<close>

theorem reconnect_without_replay:
  assumes "reachable w" and "portStream w = Some ps"
  shows "port_disconnects w = createPortStream w
       \<and> port_disconnects w = w\<lparr>portStream := Some fresh_port\<rparr>
       \<and> connected fresh_port
       \<and> onDisconnect fresh_port = [Handler_createPortStream]
       \<and> onMessage fresh_port = [Handler_handleIncomingMessage]
       \<and> posted fresh_port = []
       \<and> nextId (port_disconnects w) = nextId w"
  using assms reachable_invariant [of w]
  by (simp add: disconnect_of_invariant createPortStream_eq) (simp add: fresh_port_def)

theorem reconnect_without_replay_witness:
  "reachable (snd (init (AppDispatch 0) (new_client ''visible'')))
   \<and> map msg_id (posted (the (portStream (snd (init (AppDispatch 0) (new_client ''visible''))))))
       = [0, 1, 2, 3, 4]
   \<and> portStream (port_disconnects (snd (init (AppDispatch 0) (new_client ''visible''))))
       = Some fresh_port
   \<and> posted fresh_port = []"
  using reach_init [OF reach_new, of "AppDispatch 0" "''visible''"]
    reconnect_without_replay
      [where w = "snd (init (AppDispatch 0) (new_client ''visible''))"
         and ps = "the (portStream (snd (init (AppDispatch 0) (new_client ''visible''))))"]
  by (simp add: init_new_client createPortStream_eq fresh_port_def)

subsection \<open>One response for one call\<close>

text \<open>
  C4. For every method that awaits: its promise is pending until the observable emits;
  the first response settles it (resolves or rejects), to what that response alone
  gives; whatever the observable emits afterwards changes nothing, and a settled
  promise stays as it is. With the observable the port returns for the request's id,
  the first incoming message with that id settles the call and later ones with the
  same id are not delivered to it.
\<close>

theorem first_response_settles_the_call:
  assumes "awaits c"
  shows "await c [] = Pending
       \<and> await c (Next r # later) \<noteq> Pending
       \<and> await c (Next r # later) = await c [Next r]
       \<and> (await c obs \<noteq> Pending \<longrightarrow> await c (obs @ rest) = await c obs)
       \<and> (msg_id r = rid \<longrightarrow> (\<forall>m\<in>set before. msg_id m \<noteq> rid) \<longrightarrow>
            await c (responses rid (before @ r # after)) = await c [Next r])"
proof -
  have "await c (responses rid (before @ r # after)) = await c [Next r]"
    if "msg_id r = rid" "\<forall>m\<in>set before. msg_id m \<noteq> rid"
    using that await_Next_indep [of c r "responses rid after"] by (simp add: responses_first)
  then show ?thesis
    using assms await_Nil await_Next_settled await_Next_indep await_settled by blast
qed

theorem first_response_settles_the_call_witness:
  "awaits (Call_unlockWallet ''pw'')
   \<and> await (Call_unlockWallet ''pw'')
        (responses 7 [\<lparr>msg_id = 3, msg_payload = OtherPayload ''done''\<rparr>,
                      \<lparr>msg_id = 7, msg_payload = OtherPayload ''done''\<rparr>,
                      \<lparr>msg_id = 7, msg_payload = OtherPayload ''error''\<rparr>])
       = Resolved (Reply_message \<lparr>msg_id = 7, msg_payload = OtherPayload ''done''\<rparr>)
   \<and> await (Call_unlockWallet ''pw'') [Next \<lparr>msg_id = 7, msg_payload = OtherPayload ''done''\<rparr>]
       \<noteq> Pending
   \<and> await (Call_unlockWallet ''pw'')
        ([Next \<lparr>msg_id = 7, msg_payload = OtherPayload ''done''\<rparr>]
         @ [Next \<lparr>msg_id = 7, msg_payload = OtherPayload ''error''\<rparr>, Failed EmptyError])
       = Resolved (Reply_message \<lparr>msg_id = 7, msg_payload = OtherPayload ''done''\<rparr>)"
  using first_response_settles_the_call
    [where c = "Call_unlockWallet ''pw''" and rid = 7
       and r = "\<lparr>msg_id = 7, msg_payload = OtherPayload ''done''\<rparr>"
       and later = "[]"
       and before = "[\<lparr>msg_id = 3, msg_payload = OtherPayload ''done''\<rparr>]"
       and after = "[\<lparr>msg_id = 7, msg_payload = OtherPayload ''error''\<rparr>]"
       and obs = "[Next \<lparr>msg_id = 7, msg_payload = OtherPayload ''done''\<rparr>]"
       and rest = "[Next \<lparr>msg_id = 7, msg_payload = OtherPayload ''error''\<rparr>, Failed EmptyError]"]
  by (simp add: awaits_def await_def first_of_Next)

subsection \<open>Status updates\<close>

text \<open>
  C5. The interval is fixed at 20000 milliseconds. A first \<^verbatim>\<open>init\<close> sets one timer of
  that period whose callback is \<^verbatim>\<open>sendAppStatus\<close>, and in every reachable world of an
  initialized client that is the only timer. Each time it fires on a connected port
  stream, one \<^verbatim>\<open>appStatusUpdate\<close> keyring message is posted whose \<^verbatim>\<open>active\<close> flag is true
  exactly when the document's visibility state is \<^verbatim>\<open>visible\<close>, and the callback returns
  at once: the observable of the message is dropped. In a reachable world of an
  initialized client the port stream is connected, so the firing does not fail.
\<close>

theorem app_status_update_on_every_tick:
  "APP_STATUS_UPDATE_INTERVAL = 20000
   \<and> (\<not> initialized w \<longrightarrow>
        intervals (snd (init d w)) = intervals w @ [(Callback_sendAppStatus, APP_STATUS_UPDATE_INTERVAL)])
   \<and> (reachable w \<longrightarrow> initialized w \<longrightarrow>
        intervals w = [(Callback_sendAppStatus, APP_STATUS_UPDATE_INTERVAL)])
   \<and> (portStream w = Some ps \<longrightarrow> connected ps \<longrightarrow>
        timer_fires Callback_sendAppStatus w =
          (Inr (),
           w\<lparr>nextId := Suc (nextId w),
             portStream := Some (ps\<lparr>posted := posted ps @
               [\<lparr>msg_id = nextId w,
                 msg_payload = Keyring (K_appStatusUpdate (visibilityState w = ''visible''))\<rparr>]\<rparr>)\<rparr>))
   \<and> (reachable w \<longrightarrow> initialized w \<longrightarrow> fst (timer_fires Callback_sendAppStatus w) = Inr ())"
proof -
  have tick: "timer_fires Callback_sendAppStatus w =
          (Inr (),
           w\<lparr>nextId := Suc (nextId w),
             portStream := Some (ps\<lparr>posted := posted ps @
               [\<lparr>msg_id = nextId w,
                 msg_payload = Keyring (K_appStatusUpdate (visibilityState w = ''visible''))\<rparr>]\<rparr>)\<rparr>)"
    if "portStream w = Some ps" "connected ps" for ps
    using that by (simp add: sendAppStatus_def post_up)
  have inv: "intervals w = [(Callback_sendAppStatus, APP_STATUS_UPDATE_INTERVAL)]
           \<and> fst (timer_fires Callback_sendAppStatus w) = Inr ()"
    if "reachable w" "initialized w"
  proof -
    from that have ci: "client_invariant w" by (simp add: reachable_invariant)
    with that obtain p where "portStream w = Some p" "connected p"
      by (auto simp: client_invariant_def split: option.splits)
    with ci that tick [of p] show ?thesis by (simp add: client_invariant_def)
  qed
  have "APP_STATUS_UPDATE_INTERVAL = 20000" by (simp add: APP_STATUS_UPDATE_INTERVAL_def)
  moreover have "intervals (snd (init d w))
      = intervals w @ [(Callback_sendAppStatus, APP_STATUS_UPDATE_INTERVAL)]"
    if "\<not> initialized w" using that by (simp add: init_fresh)
  ultimately show ?thesis using tick inv by blast
qed

theorem app_status_update_on_every_tick_witness:
  "\<not> initialized (new_client ''hidden'')
   \<and> intervals (new_client ''hidden'') = []
   \<and> reachable (snd (init (AppDispatch 0) (new_client ''hidden'')))
   \<and> initialized (snd (init (AppDispatch 0) (new_client ''hidden'')))
   \<and> intervals (snd (init (AppDispatch 0) (new_client ''hidden''))) = [(Callback_sendAppStatus, 20000)]
   \<and> fst (timer_fires Callback_sendAppStatus (snd (init (AppDispatch 0) (new_client ''hidden''))))
       = Inr ()
   \<and> last (posted (the (portStream (snd (timer_fires Callback_sendAppStatus
        (snd (init (AppDispatch 0) (new_client ''hidden''))))))))
       = \<lparr>msg_id = 5, msg_payload = Keyring (K_appStatusUpdate False)\<rparr>"
  using reach_init [OF reach_new, of "AppDispatch 0" "''hidden''"]
    app_status_update_on_every_tick
      [where w = "new_client ''hidden''" and d = "AppDispatch 0"]
    app_status_update_on_every_tick
      [where w = "snd (init (AppDispatch 0) (new_client ''hidden''))" and d = "AppDispatch 0"
         and ps = "the (portStream (snd (init (AppDispatch 0) (new_client ''hidden''))))"]
  by (simp add: init_fresh new_client_def fresh_port_def)

subsection \<open>Passwords and entropy\<close>

text \<open>
  C6. \<^verbatim>\<open>verifyPassword\<close> called with the legacy flag true builds the payload of type
  \<^verbatim>\<open>keyring\<close> and method \<^verbatim>\<open>verifyPassword\<close>; called with the flag false or left out it
  builds the payload of type \<^verbatim>\<open>method-payload\<close> and method \<^verbatim>\<open>verifyPassword\<close>. Either
  payload carries the password given and nothing else, and it is the payload of the
  envelope that is created and, on a connected port stream, posted.
\<close>

theorem verifyPassword_dual_path:
  "request_of (Call_verifyPassword password (Some True)) = Keyring (K_verifyPassword password)
   \<and> request_of (Call_verifyPassword password (Some False)) = MethodPayload (M_verifyPassword password)
   \<and> request_of (Call_verifyPassword password None) = MethodPayload (M_verifyPassword password)
   \<and> payload_type (Keyring (K_verifyPassword password)) = Some ''keyring''
   \<and> payload_method (Keyring (K_verifyPassword password)) = Some ''verifyPassword''
   \<and> payload_type (MethodPayload (M_verifyPassword password)) = Some ''method-payload''
   \<and> payload_method (MethodPayload (M_verifyPassword password)) = Some ''verifyPassword''
   \<and> fst (createMessage (request_of (Call_verifyPassword password legacyAccounts)) w)
       = \<lparr>msg_id = nextId w,
          msg_payload = (if or_false legacyAccounts then Keyring (K_verifyPassword password)
                         else MethodPayload (M_verifyPassword password))\<rparr>
   \<and> (portStream w = Some ps \<longrightarrow> connected ps \<longrightarrow>
        invoke (Call_verifyPassword password legacyAccounts) w
        = (Inr (nextId w),
           w\<lparr>nextId := Suc (nextId w),
             portStream := Some (ps\<lparr>posted := posted ps @
               [\<lparr>msg_id = nextId w,
                 msg_payload = (if or_false legacyAccounts then Keyring (K_verifyPassword password)
                                else MethodPayload (M_verifyPassword password))\<rparr>]\<rparr>)\<rparr>))"
  by (simp add: request_of_def or_false_def createMessage_def invoke_def post_up)

theorem verifyPassword_dual_path_witness:
  "invoke (Call_verifyPassword ''hunter2'' (Some True))
     ((new_client ''visible'')\<lparr>portStream := Some fresh_port\<rparr>)
   = (Inr 0,
      (new_client ''visible'')\<lparr>nextId := 1,
        portStream := Some (fresh_port\<lparr>posted :=
          [\<lparr>msg_id = 0, msg_payload = Keyring (K_verifyPassword ''hunter2'')\<rparr>]\<rparr>)\<rparr>)
   \<and> invoke (Call_verifyPassword ''hunter2'' None)
     ((new_client ''visible'')\<lparr>portStream := Some fresh_port\<rparr>)
   = (Inr 0,
      (new_client ''visible'')\<lparr>nextId := 1,
        portStream := Some (fresh_port\<lparr>posted :=
          [\<lparr>msg_id = 0, msg_payload = MethodPayload (M_verifyPassword ''hunter2'')\<rparr>]\<rparr>)\<rparr>)"
  using verifyPassword_dual_path
      [where w = "(new_client ''visible'')\<lparr>portStream := Some fresh_port\<rparr>" and ps = fresh_port
         and password = "''hunter2''" and legacyAccounts = "Some True"]
    verifyPassword_dual_path
      [where w = "(new_client ''visible'')\<lparr>portStream := Some fresh_port\<rparr>" and ps = fresh_port
         and password = "''hunter2''" and legacyAccounts = "None"]
  by (simp add: new_client_def fresh_port_def or_false_def)

text \<open>
  C7. When the first response to \<^verbatim>\<open>getEntropy\<close> is a keyring payload of method
  \<^verbatim>\<open>getEntropy\<close> whose \<^verbatim>\<open>return\<close> is a non-empty string, the call resolves with that
  string; for every other first response it rejects with \<^verbatim>\<open>Mnemonic not found\<close>
  (\<open>MnemonicNotFound\<close>). So it resolves exactly when such a payload arrives.
\<close>

theorem getEntropy_mnemonic_not_found:
  "(msg_payload msg = Keyring (K_getEntropy args (Some ret)) \<and> ret \<noteq> [] \<longrightarrow>
      await (Call_getEntropy password) (Next msg # later) = Resolved (Reply_text ret))
   \<and> ((\<forall>args ret. msg_payload msg = Keyring (K_getEntropy args (Some ret)) \<longrightarrow> ret = []) \<longrightarrow>
      await (Call_getEntropy password) (Next msg # later) = Rejected (Error ''Mnemonic not found'')
      \<and> MnemonicNotFound (Error ''Mnemonic not found''))
   \<and> ((\<exists>v. await (Call_getEntropy password) (Next msg # later) = Resolved v)
        \<longleftrightarrow> (\<exists>args ret. msg_payload msg = Keyring (K_getEntropy args (Some ret)) \<and> ret \<noteq> []))"
  by (auto simp: await_def first_mapped_Next getEntropy_map_def MnemonicNotFound_def
        split: payload.splits keyring_payload.splits option.splits)

theorem getEntropy_mnemonic_not_found_witness:
  "await (Call_getEntropy (Some ''pw''))
     [Next \<lparr>msg_id = 0, msg_payload = Keyring (K_getEntropy None (Some ''entropy''))\<rparr>]
     = Resolved (Reply_text ''entropy'')
   \<and> await (Call_getEntropy (Some ''pw''))
     [Next \<lparr>msg_id = 0, msg_payload = Keyring (K_getEntropy None (Some []))\<rparr>]
     = Rejected (Error ''Mnemonic not found'')
   \<and> await (Call_getEntropy (Some ''pw''))
     [Next \<lparr>msg_id = 0, msg_payload = Keyring (K_getEntropy None None)\<rparr>]
     = Rejected (Error ''Mnemonic not found'')"
  using getEntropy_mnemonic_not_found
      [where msg = "\<lparr>msg_id = 0, msg_payload = Keyring (K_getEntropy None (Some ''entropy''))\<rparr>"
         and args = None and ret = "''entropy''" and password = "Some ''pw''" and later = "[]"]
    getEntropy_mnemonic_not_found
      [where msg = "\<lparr>msg_id = 0, msg_payload = Keyring (K_getEntropy None (Some []))\<rparr>"
         and password = "Some ''pw''" and later = "[]"]
    getEntropy_mnemonic_not_found
      [where msg = "\<lparr>msg_id = 0, msg_payload = Keyring (K_getEntropy None None)\<rparr>"
         and password = "Some ''pw''" and later = "[]"]
  by simp

subsection \<open>Incoming messages and \<^verbatim>\<open>init\<close>\<close>

text \<open>
  C8. On an initialized client with a dispatch function, \<^verbatim>\<open>handleIncomingMessage\<close>
  raises no error. A payload that passes none of the six tests (permission requests,
  transaction requests, active origin, loaded features, network, entities updated)
  leaves the world as it was; so the dispatched actions, the growthbook tables and the
  invalidated queries change only for a payload that passes one of them, and then as
  the last six conjuncts say. In a reachable world a port stream exists only on such a
  client, and a message that arrives goes to \<^verbatim>\<open>handleIncomingMessage\<close>.
\<close>

theorem unrecognized_broadcast_ignored:
  "(initialized w \<and> dispatch w \<noteq> None \<longrightarrow>
       fst (handleIncomingMessage msg w) = Inr ()
     \<and> (\<not> recognized (msg_payload msg) \<longrightarrow> handleIncomingMessage msg w = (Inr (), w))
     \<and> (dispatched (snd (handleIncomingMessage msg w)) \<noteq> dispatched w
        \<or> growthbook_attributes (snd (handleIncomingMessage msg w)) \<noteq> growthbook_attributes w
        \<or> growthbook_features (snd (handleIncomingMessage msg w)) \<noteq> growthbook_features w
        \<or> invalidated (snd (handleIncomingMessage msg w)) \<noteq> invalidated w
        \<longrightarrow> recognized (msg_payload msg))
     \<and> (\<forall>ps. msg_payload msg = PermissionRequests ps \<longrightarrow>
          snd (handleIncomingMessage msg w) = w\<lparr>dispatched := dispatched w @ [setPermissions ps]\<rparr>)
     \<and> (\<forall>txs. msg_payload msg = GetTransactionRequestsResponse txs \<longrightarrow>
          snd (handleIncomingMessage msg w)
            = w\<lparr>dispatched := dispatched w @ [setTransactionRequests txs]\<rparr>)
     \<and> (\<forall>origin favIcon. msg_payload msg = UpdateActiveOrigin origin favIcon \<longrightarrow>
          snd (handleIncomingMessage msg w)
            = w\<lparr>dispatched := dispatched w @ [setActiveOrigin origin favIcon]\<rparr>)
     \<and> (\<forall>features attributes. msg_payload msg = LoadedFeaturesPayload features attributes \<longrightarrow>
          snd (handleIncomingMessage msg w)
            = w\<lparr>growthbook_attributes := Some attributes, growthbook_features := Some features\<rparr>)
     \<and> (\<forall>network. msg_payload msg = SetNetworkPayload network \<longrightarrow>
          snd (handleIncomingMessage msg w)
            = w\<lparr>dispatched := dispatched w @ [changeActiveNetwork network]\<rparr>)
     \<and> (\<forall>t k. msg_payload msg = MethodPayload (M_entitiesUpdated t) \<longrightarrow>
          entitiesToClientQueryKeys t = Some k \<longrightarrow>
          snd (handleIncomingMessage msg w) = w\<lparr>invalidated := invalidated w @ [k]\<rparr>))
   \<and> (reachable w \<longrightarrow> portStream w \<noteq> None \<longrightarrow>
        initialized w \<and> dispatch w \<noteq> None
        \<and> port_receives msg w = handleIncomingMessage msg w)"
proof -
  have "fst (handleIncomingMessage msg w) = Inr ()
     \<and> (\<not> recognized (msg_payload msg) \<longrightarrow> handleIncomingMessage msg w = (Inr (), w))
     \<and> (dispatched (snd (handleIncomingMessage msg w)) \<noteq> dispatched w
        \<or> growthbook_attributes (snd (handleIncomingMessage msg w)) \<noteq> growthbook_attributes w
        \<or> growthbook_features (snd (handleIncomingMessage msg w)) \<noteq> growthbook_features w
        \<or> invalidated (snd (handleIncomingMessage msg w)) \<noteq> invalidated w
        \<longrightarrow> recognized (msg_payload msg))
     \<and> (\<forall>ps. msg_payload msg = PermissionRequests ps \<longrightarrow>
          snd (handleIncomingMessage msg w) = w\<lparr>dispatched := dispatched w @ [setPermissions ps]\<rparr>)
     \<and> (\<forall>txs. msg_payload msg = GetTransactionRequestsResponse txs \<longrightarrow>
          snd (handleIncomingMessage msg w)
            = w\<lparr>dispatched := dispatched w @ [setTransactionRequests txs]\<rparr>)
     \<and> (\<forall>origin favIcon. msg_payload msg = UpdateActiveOrigin origin favIcon \<longrightarrow>
          snd (handleIncomingMessage msg w)
            = w\<lparr>dispatched := dispatched w @ [setActiveOrigin origin favIcon]\<rparr>)
     \<and> (\<forall>features attributes. msg_payload msg = LoadedFeaturesPayload features attributes \<longrightarrow>
          snd (handleIncomingMessage msg w)
            = w\<lparr>growthbook_attributes := Some attributes, growthbook_features := Some features\<rparr>)
     \<and> (\<forall>network. msg_payload msg = SetNetworkPayload network \<longrightarrow>
          snd (handleIncomingMessage msg w)
            = w\<lparr>dispatched := dispatched w @ [changeActiveNetwork network]\<rparr>)
     \<and> (\<forall>t k. msg_payload msg = MethodPayload (M_entitiesUpdated t) \<longrightarrow>
          entitiesToClientQueryKeys t = Some k \<longrightarrow>
          snd (handleIncomingMessage msg w) = w\<lparr>invalidated := invalidated w @ [k]\<rparr>)"
    if init: "initialized w" "dispatch w \<noteq> None"
  proof -
    have ok: "fst (handleIncomingMessage msg w) = Inr ()"
      using init by (simp add: handleIncomingMessage_def)
    have ignored: "handleIncomingMessage msg w = (Inr (), w)" if "\<not> recognized (msg_payload msg)"
      using init that
      by (auto simp: handleIncomingMessage_def recognized_def isPermissionRequests_def
            isGetTransactionRequestsResponse_def isUpdateActiveOrigin_def
            isLoadedFeaturesPayload_def isSetNetworkPayload_def
            isMethodPayload_entitiesUpdated_def
            split: payload.splits method_payload.splits)
    have branches:
      "\<forall>ps. msg_payload msg = PermissionRequests ps \<longrightarrow>
          snd (handleIncomingMessage msg w) = w\<lparr>dispatched := dispatched w @ [setPermissions ps]\<rparr>"
      "\<forall>txs. msg_payload msg = GetTransactionRequestsResponse txs \<longrightarrow>
          snd (handleIncomingMessage msg w)
            = w\<lparr>dispatched := dispatched w @ [setTransactionRequests txs]\<rparr>"
      "\<forall>origin favIcon. msg_payload msg = UpdateActiveOrigin origin favIcon \<longrightarrow>
          snd (handleIncomingMessage msg w)
            = w\<lparr>dispatched := dispatched w @ [setActiveOrigin origin favIcon]\<rparr>"
      "\<forall>features attributes. msg_payload msg = LoadedFeaturesPayload features attributes \<longrightarrow>
          snd (handleIncomingMessage msg w)
            = w\<lparr>growthbook_attributes := Some attributes, growthbook_features := Some features\<rparr>"
      "\<forall>network. msg_payload msg = SetNetworkPayload network \<longrightarrow>
          snd (handleIncomingMessage msg w)
            = w\<lparr>dispatched := dispatched w @ [changeActiveNetwork network]\<rparr>"
      "\<forall>t k. msg_payload msg = MethodPayload (M_entitiesUpdated t) \<longrightarrow>
          entitiesToClientQueryKeys t = Some k \<longrightarrow>
          snd (handleIncomingMessage msg w) = w\<lparr>invalidated := invalidated w @ [k]\<rparr>"
      using init by (auto simp: handleIncomingMessage_def run_dispatch_def)
    have only: "recognized (msg_payload msg)"
      if "dispatched (snd (handleIncomingMessage msg w)) \<noteq> dispatched w
        \<or> growthbook_attributes (snd (handleIncomingMessage msg w)) \<noteq> growthbook_attributes w
        \<or> growthbook_features (snd (handleIncomingMessage msg w)) \<noteq> growthbook_features w
        \<or> invalidated (snd (handleIncomingMessage msg w)) \<noteq> invalidated w"
    proof (rule ccontr)
      assume "\<not> recognized (msg_payload msg)"
      then have "handleIncomingMessage msg w = (Inr (), w)" by (rule ignored)
      with that show False by simp
    qed
    from ok ignored only branches show ?thesis by blast
  qed
  moreover have "initialized w \<and> dispatch w \<noteq> None
        \<and> port_receives msg w = handleIncomingMessage msg w"
    if "reachable w" "portStream w \<noteq> None"
  proof -
    from that have "client_invariant w" by (simp add: reachable_invariant)
    with that show ?thesis
      by (auto simp: client_invariant_def port_receives_def split: if_splits option.splits)
  qed
  ultimately show ?thesis by blast
qed

theorem unrecognized_broadcast_ignored_witness:
  "reachable (snd (init (AppDispatch 0) (new_client ''visible'')))
   \<and> portStream (snd (init (AppDispatch 0) (new_client ''visible''))) \<noteq> None
   \<and> initialized (snd (init (AppDispatch 0) (new_client ''visible'')))
   \<and> dispatch (snd (init (AppDispatch 0) (new_client ''visible''))) \<noteq> None
   \<and> \<not> recognized (OtherPayload ''lock-timeout-tick'')
   \<and> port_receives \<lparr>msg_id = 9, msg_payload = OtherPayload ''lock-timeout-tick''\<rparr>
        (snd (init (AppDispatch 0) (new_client ''visible'')))
       = (Inr (), snd (init (AppDispatch 0) (new_client ''visible'')))
   \<and> recognized (SetNetworkPayload ''testnet'')
   \<and> port_receives \<lparr>msg_id = 9, msg_payload = SetNetworkPayload ''testnet''\<rparr>
        (snd (init (AppDispatch 0) (new_client ''visible'')))
       = (Inr (), (snd (init (AppDispatch 0) (new_client ''visible'')))
                    \<lparr>dispatched := [changeActiveNetwork ''testnet'']\<rparr>)"
  using reach_init [OF reach_new, of "AppDispatch 0" "''visible''"]
    unrecognized_broadcast_ignored
      [where w = "snd (init (AppDispatch 0) (new_client ''visible''))"
         and msg = "\<lparr>msg_id = 9, msg_payload = OtherPayload ''lock-timeout-tick''\<rparr>"]
    unrecognized_broadcast_ignored
      [where w = "snd (init (AppDispatch 0) (new_client ''visible''))"
         and msg = "\<lparr>msg_id = 9, msg_payload = SetNetworkPayload ''testnet''\<rparr>"]
  by (simp add: init_new_client recognized_def isPermissionRequests_def
        isGetTransactionRequestsResponse_def isUpdateActiveOrigin_def isLoadedFeaturesPayload_def
        isSetNetworkPayload_def isMethodPayload_entitiesUpdated_def prod_eq_iff)

text \<open>
  C9, as the code has it. \<^verbatim>\<open>init\<close> on an initialized client throws and leaves the world
  as it was: no port stream is created and no timer is set. Whatever the world, the
  client is initialized after \<^verbatim>\<open>init\<close>, so a second \<^verbatim>\<open>init\<close> always throws. An incoming
  message handled while the client is not marked initialized, or has no dispatch
  function, causes an error and changes nothing; \<^verbatim>\<open>init\<close> sets both before it creates the
  port stream, so from then on, also while the promise \<^verbatim>\<open>init\<close> returned is pending, an
  incoming message is handled without error.
\<close>

theorem init_at_most_once:
  "(initialized w \<longrightarrow> init d w = (Inl (Error ''[BackgroundClient] already initialized''), w))
   \<and> initialized (snd (init d w))
   \<and> init d' (snd (init d w))
       = (Inl (Error ''[BackgroundClient] already initialized''), snd (init d w))
   \<and> (\<not> initialized w \<or> dispatch w = None \<longrightarrow>
        handleIncomingMessage msg w
          = (Inl (Error ''BackgroundClient is not initialized to handle incoming messages''), w))
   \<and> (initialized w \<and> dispatch w \<noteq> None \<longrightarrow> fst (handleIncomingMessage msg w) = Inr ())
   \<and> (\<not> initialized w \<longrightarrow>
        dispatch (snd (init d w)) = Some d
        \<and> fst (handleIncomingMessage msg (snd (init d w))) = Inr ())"
proof -
  have again: "initialized (snd (init d w))"
    by (cases "initialized w") (simp_all add: init_again init_fresh)
  then have second: "init d' (snd (init d w))
       = (Inl (Error ''[BackgroundClient] already initialized''), snd (init d w))"
    by (rule init_again)
  have first: "dispatch (snd (init d w)) = Some d
        \<and> fst (handleIncomingMessage msg (snd (init d w))) = Inr ()"
    if "\<not> initialized w"
    using that by (simp add: init_fresh handleIncomingMessage_def)
  from again second first show ?thesis
    by (auto simp: init_again handleIncomingMessage_def)
qed

theorem init_at_most_once_witness:
  "initialized (snd (init (AppDispatch 0) (new_client ''visible'')))
   \<and> dispatch (snd (init (AppDispatch 0) (new_client ''visible''))) = Some (AppDispatch 0)
   \<and> init (AppDispatch 1) (snd (init (AppDispatch 0) (new_client ''visible'')))
       = (Inl (Error ''[BackgroundClient] already initialized''),
          snd (init (AppDispatch 0) (new_client ''visible'')))
   \<and> fst (handleIncomingMessage \<lparr>msg_id = 9, msg_payload = PermissionRequests [''p'']\<rparr>
        (snd (init (AppDispatch 0) (new_client ''visible'')))) = Inr ()
   \<and> \<not> initialized (new_client ''visible'')
   \<and> handleIncomingMessage \<lparr>msg_id = 9, msg_payload = PermissionRequests [''p'']\<rparr>
        (new_client ''visible'')
       = (Inl (Error ''BackgroundClient is not initialized to handle incoming messages''),
          new_client ''visible'')"
  using init_at_most_once
      [where w = "snd (init (AppDispatch 0) (new_client ''visible''))" and d = "AppDispatch 1"
         and msg = "\<lparr>msg_id = 9, msg_payload = PermissionRequests [''p'']\<rparr>"]
    init_at_most_once
      [where w = "new_client ''visible''" and d = "AppDispatch 0" and d' = "AppDispatch 1"
         and msg = "\<lparr>msg_id = 9, msg_payload = PermissionRequests [''p'']\<rparr>"]
  by (simp add: new_client_def)

text \<open>
  C9 as it was stated has a message handled before \<^verbatim>\<open>init\<close> has completed cause an
  error. On a new client \<^verbatim>\<open>init\<close> returns the promise of its four requests; after one
  permission-requests message, which answers none of them, the promise is still pending,
  and the message was handled without error: its permissions were dispatched.
\<close>

theorem message_during_init_counterexample:
  "fst (init (AppDispatch 0) (new_client ''visible'')) = Inr [1, 2, 3, 4]
   \<and> init_promise [1, 2, 3, 4] [\<lparr>msg_id = 9, msg_payload = PermissionRequests [''p'']\<rparr>] = Pending
   \<and> port_receives \<lparr>msg_id = 9, msg_payload = PermissionRequests [''p'']\<rparr>
        (snd (init (AppDispatch 0) (new_client ''visible'')))
       = (Inr (), (snd (init (AppDispatch 0) (new_client ''visible'')))
                    \<lparr>dispatched := [setPermissions [''p'']]\<rparr>)"
  by (simp add: init_new_client fresh_port_def port_receives_def handleIncomingMessage_def
        run_dispatch_def init_promise_def init_calls_def responses_def await_def first_of_Nil)

subsection \<open>Created accounts\<close>

text \<open>
  C10. When the first response to \<^verbatim>\<open>createAccounts\<close> is an \<^verbatim>\<open>accountsCreatedResponse\<close>
  whose list of accounts is empty, or whose first account has a type other than the
  one requested, the call rejects. Whenever the call resolves, whatever the observable
  emitted, its value is a non-empty list of accounts whose first account has the
  requested type.
\<close>

theorem createAccounts_never_empty_or_mismatched:
  "(msg_payload msg = MethodPayload (M_accountsCreatedResponse accs) \<longrightarrow>
      (accs = [] \<or> (accs \<noteq> [] \<and> account_type (hd accs) \<noteq> args_type inputs)) \<longrightarrow>
      await (Call_createAccounts inputs) (Next msg # later)
        = Rejected (Error (''Unexpected accounts type response '' @
            (case accs of [] \<Rightarrow> ''undefined'' | a # as \<Rightarrow> account_type a))))
   \<and> (await (Call_createAccounts inputs) obs = Resolved v \<longrightarrow>
        (\<exists>accs. v = Reply_accounts accs \<and> accs \<noteq> [] \<and> account_type (hd accs) = args_type inputs))"
proof -
  have "\<exists>accs. v = Reply_accounts accs \<and> accs \<noteq> [] \<and> account_type (hd accs) = args_type inputs"
    if "await (Call_createAccounts inputs) obs = Resolved v"
  proof (cases obs)
    case Nil
    with that show ?thesis by (simp add: await_def first_mapped_Nil)
  next
    case (Cons n ns)
    with that show ?thesis
      by (cases n)
         (auto simp: await_def first_mapped_Next first_mapped_def lastValueFrom_def
               createAccounts_map_def first_type_def
               split: payload.splits method_payload.splits list.splits if_splits sum.splits)
  qed
  moreover have "await (Call_createAccounts inputs) (Next msg # later)
        = Rejected (Error (''Unexpected accounts type response '' @
            (case accs of [] \<Rightarrow> ''undefined'' | a # as \<Rightarrow> account_type a)))"
    if "msg_payload msg = MethodPayload (M_accountsCreatedResponse accs)"
       "accs = [] \<or> (accs \<noteq> [] \<and> account_type (hd accs) \<noteq> args_type inputs)"
    using that
    by (auto simp: await_def first_mapped_Next createAccounts_map_def first_type_def
             split: list.splits)
  ultimately show ?thesis by blast
qed

theorem createAccounts_never_empty_or_mismatched_witness:
  "await (Call_createAccounts (CreateAccountsArgs ''ledger'' ''x''))
     [Next \<lparr>msg_id = 0, msg_payload = MethodPayload (M_accountsCreatedResponse [])\<rparr>]
     = Rejected (Error ''Unexpected accounts type response undefined'')
   \<and> await (Call_createAccounts (CreateAccountsArgs ''ledger'' ''x''))
     [Next \<lparr>msg_id = 0, msg_payload = MethodPayload (M_accountsCreatedResponse
        [SerializedUIAccount ''a1'' ''imported''])\<rparr>]
     = Rejected (Error ''Unexpected accounts type response imported'')
   \<and> await (Call_createAccounts (CreateAccountsArgs ''ledger'' ''x''))
     [Next \<lparr>msg_id = 0, msg_payload = MethodPayload (M_accountsCreatedResponse
        [SerializedUIAccount ''a1'' ''ledger'', SerializedUIAccount ''a2'' ''ledger''])\<rparr>]
     = Resolved (Reply_accounts
        [SerializedUIAccount ''a1'' ''ledger'', SerializedUIAccount ''a2'' ''ledger''])
   \<and> account_type (hd [SerializedUIAccount ''a1'' ''ledger'', SerializedUIAccount ''a2'' ''ledger''])
       = args_type (CreateAccountsArgs ''ledger'' ''x'')"
  using createAccounts_never_empty_or_mismatched
      [where msg = "\<lparr>msg_id = 0, msg_payload = MethodPayload (M_accountsCreatedResponse [])\<rparr>"
         and accs = "[]" and inputs = "CreateAccountsArgs ''ledger'' ''x''" and later = "[]"]
    createAccounts_never_empty_or_mismatched
      [where msg = "\<lparr>msg_id = 0, msg_payload = MethodPayload (M_accountsCreatedResponse
          [SerializedUIAccount ''a1'' ''imported''])\<rparr>"
         and accs = "[SerializedUIAccount ''a1'' ''imported'']"
         and inputs = "CreateAccountsArgs ''ledger'' ''x''" and later = "[]"]
    createAccounts_never_empty_or_mismatched
      [where inputs = "CreateAccountsArgs ''ledger'' ''x''"
         and obs = "[Next \<lparr>msg_id = 0, msg_payload = MethodPayload (M_accountsCreatedResponse
          [SerializedUIAccount ''a1'' ''ledger'', SerializedUIAccount ''a2'' ''ledger''])\<rparr>]"
         and v = "Reply_accounts
          [SerializedUIAccount ''a1'' ''ledger'', SerializedUIAccount ''a2'' ''ledger'']"]
  by (simp add: await_def first_mapped_Next createAccounts_map_def first_type_def)

end
